theory Spec2Isabelle
  imports Main "HOL-Library.Word"
begin

unbundle bit_operations_syntax

section \<open>The fatal reporter and the values passed to it\<close>

text \<open>
  The header \<^verbatim>\<open>src/base/logging.h\<close> declares the reporter
  \<^verbatim>\<open>extern "C" void V8_Fatal(const char* file, int line, const char* format, ...)\<close>
  and never defines it. A call of it does not return, so a call is a value: the
  constructor \<open>V8_Fatal\<close> of the type of failures, holding the file, the line, the
  format string and the variadic arguments in the order the caller passes them.

  Pointers are addresses, \<open>NULL\<close> is the address 0. The texts produced by the
  preprocessor (\<^verbatim>\<open>__FILE__\<close>, \<^verbatim>\<open>#expected\<close>) are string literals and are
  kept as strings.
\<close>

type_synonym address = nat

definition NULL :: address where
  "NULL = 0"

datatype arg =
    ArgText string
  | ArgCharPtr address
  | ArgInt "32 word"
  | ArgUInt32 "32 word"
  | ArgInt64 "64 word"
  | ArgIntPtr "32 word"
  | ArgVoidPtr address
  | ArgDouble "64 word"

datatype failure =
    V8_Fatal (fatal_file: string) (fatal_line: int) (fatal_format: string)
      (fatal_args: "arg list")
  | bad_alloc

text \<open>
  A statement of the program either does not return (\<open>Inl\<close>: the reporter was called,
  or \<^verbatim>\<open>new\<close> threw) or returns and leaves a program state (\<open>Inr\<close>).
\<close>

definition aborts :: "failure + 's \<Rightarrow> bool" where
  "aborts r = (case r of Inl (V8_Fatal f l fmt as) \<Rightarrow> True | Inl bad_alloc \<Rightarrow> False
     | Inr s \<Rightarrow> False)"

section \<open>Program state\<close>

text \<open>
  \<open>mem\<close> gives the bytes of the character array that starts at an address, \<open>cells\<close>
  the live \<^verbatim>\<open>double[1]\<close> arrays of the free store (address and the 64 bits
  stored), \<open>room\<close> the number of such arrays the free store can still hand out.
\<close>

record state =
  mem :: "address \<Rightarrow> string"
  cells :: "(address \<times> 64 word) list"
  room :: nat

subsection \<open>The C library's \<^verbatim>\<open>strcmp\<close>\<close>

text \<open>
  \<^verbatim>\<open>strcmp\<close> compares two strings byte by byte as unsigned characters and stops at
  the first difference or at the terminating NUL of both; the sign of its result is
  the order of the first differing bytes. The end of a buffer reads as the terminator.
\<close>

fun strcmp :: "string \<Rightarrow> string \<Rightarrow> int" where
  "strcmp [] [] = 0"
| "strcmp [] (y # ys) = - int (of_char y)"
| "strcmp (x # xs) [] = int (of_char x)"
| "strcmp (x # xs) (y # ys) =
     (if x \<noteq> y then int (of_char x) - int (of_char y)
      else if x = CHR 0x00 then 0
      else strcmp xs ys)"

text \<open>The contents of the C string held in a buffer: the bytes before the first NUL.\<close>

definition c_str :: "string \<Rightarrow> string" where
  "c_str buf = takeWhile (\<lambda>c. c \<noteq> CHR 0x00) buf"

subsection \<open>Doubles in memory\<close>

text \<open>
  A \<^verbatim>\<open>double\<close> in memory is its 64 bits (IEEE 754 binary64). The comparison
  \<^verbatim>\<open>==\<close> on doubles is false when either side is a NaN, and equates the two zeros.
\<close>

definition is_nan :: "64 word \<Rightarrow> bool" where
  "is_nan d = (drop_bit 52 d AND 0x7FF = 0x7FF \<and> d AND 0xFFFFFFFFFFFFF \<noteq> 0)"

definition double_eq :: "64 word \<Rightarrow> 64 word \<Rightarrow> bool" where
  "double_eq a b =
     (\<not> is_nan a \<and> \<not> is_nan b \<and> (a = b \<or> (push_bit 1 a = 0 \<and> push_bit 1 b = 0)))"

text \<open>
  \<^verbatim>\<open>new double[1]\<close> throws \<^verbatim>\<open>std::bad_alloc\<close> when the free store is exhausted,
  else it returns the address of a new array, distinct from every live one and from
  \<open>NULL\<close>. \<^verbatim>\<open>delete[]\<close> gives the array back.
\<close>

definition fresh :: "(address \<times> 64 word) list \<Rightarrow> address" where
  "fresh cs = Suc (fold max (map fst cs) 0)"

definition new_double :: "'a state_scheme \<Rightarrow> failure + address \<times> 'a state_scheme" where
  "new_double s =
     (if room s = 0 then Inl bad_alloc
      else let p = fresh (cells s)
           in Inr (p, s\<lparr>cells := (p, 0) # cells s, room := room s - 1\<rparr>))"

definition store_double :: "address \<Rightarrow> 64 word \<Rightarrow> 'a state_scheme \<Rightarrow> 'a state_scheme" where
  "store_double p v s = s\<lparr>cells := (p, v) # filter (\<lambda>c. fst c \<noteq> p) (cells s)\<rparr>"

definition load_double :: "address \<Rightarrow> 'a state_scheme \<Rightarrow> 64 word" where
  "load_double p s = (case map_of (cells s) p of Some v \<Rightarrow> v | None \<Rightarrow> 0)"

definition delete_double :: "address \<Rightarrow> 'a state_scheme \<Rightarrow> 'a state_scheme" where
  "delete_double p s =
     s\<lparr>cells := filter (\<lambda>c. fst c \<noteq> p) (cells s), room := Suc (room s)\<rparr>"

section \<open>The typed comparison helpers\<close>

text \<open>
  C++ selects one of the overloads of \<^verbatim>\<open>CheckEqualsHelper\<close> and
  \<^verbatim>\<open>CheckNonEqualsHelper\<close> by the type of the operands; each overload is a function of
  its own here, named after the operand type. Each is a \<^verbatim>\<open>void\<close> function: it
  returns the state it was called in, or does not return.
\<close>

definition CheckEqualsHelper_int ::
  "string \<Rightarrow> int \<Rightarrow> string \<Rightarrow> 32 word \<Rightarrow> string \<Rightarrow> 32 word \<Rightarrow> 's \<Rightarrow> failure + 's" where
  "CheckEqualsHelper_int file line expected_source expected value_source value s =
     (if expected \<noteq> value then
        Inl (V8_Fatal file line
          ''CHECK_EQ(%s, %s) failed\<newline>#   Expected: %i\<newline>#   Found: %i''
          [ArgText expected_source, ArgText value_source, ArgInt expected, ArgInt value])
      else Inr s)"

definition CheckEqualsHelper_int64 ::
  "string \<Rightarrow> int \<Rightarrow> string \<Rightarrow> 64 word \<Rightarrow> string \<Rightarrow> 64 word \<Rightarrow> 's \<Rightarrow> failure + 's" where
  "CheckEqualsHelper_int64 file line expected_source expected value_source value s =
     (if expected \<noteq> value then
        Inl (V8_Fatal file line
          ''CHECK_EQ(%s, %s) failed\<newline>#   Expected: 0x%08x%08x\<newline>#   Found: 0x%08x%08x''
          [ArgText expected_source, ArgText value_source,
           ArgUInt32 (ucast (signed_drop_bit 32 expected)),
           ArgUInt32 (ucast expected),
           ArgUInt32 (ucast (signed_drop_bit 32 value)),
           ArgUInt32 (ucast value)])
      else Inr s)"

text \<open>Compiled on 32-bit AIX only, where \<^verbatim>\<open>intptr_t\<close> is \<^verbatim>\<open>long int\<close>.\<close>

definition CheckEqualsHelper_intptr ::
  "string \<Rightarrow> int \<Rightarrow> string \<Rightarrow> 32 word \<Rightarrow> string \<Rightarrow> 32 word \<Rightarrow> 's \<Rightarrow> failure + 's" where
  "CheckEqualsHelper_intptr file line expected_source expected value_source value s =
     (if expected \<noteq> value then
        Inl (V8_Fatal file line
          ''CHECK_EQ(%s, %s) failed\<newline>#   Expected: 0x%lx\<newline>#   Found: 0x%lx''
          [ArgText expected_source, ArgText value_source, ArgIntPtr expected, ArgIntPtr value])
      else Inr s)"

definition CheckNonEqualsHelper_int ::
  "string \<Rightarrow> int \<Rightarrow> string \<Rightarrow> 32 word \<Rightarrow> string \<Rightarrow> 32 word \<Rightarrow> 's \<Rightarrow> failure + 's" where
  "CheckNonEqualsHelper_int file line unexpected_source unexpected value_source value s =
     (if unexpected = value then
        Inl (V8_Fatal file line
          ''CHECK_NE(%s, %s) failed\<newline>#   Value: %i''
          [ArgText unexpected_source, ArgText value_source, ArgInt value])
      else Inr s)"

definition CheckEqualsHelper_str ::
  "string \<Rightarrow> int \<Rightarrow> string \<Rightarrow> address \<Rightarrow> string \<Rightarrow> address \<Rightarrow> 'a state_scheme
    \<Rightarrow> failure + 'a state_scheme" where
  "CheckEqualsHelper_str file line expected_source expected value_source value s =
     (if (expected = NULL \<and> value \<noteq> NULL) \<or>
         (expected \<noteq> NULL \<and> value = NULL) \<or>
         (expected \<noteq> NULL \<and> value \<noteq> NULL \<and> strcmp (mem s expected) (mem s value) \<noteq> 0)
      then
        Inl (V8_Fatal file line
          ''CHECK_EQ(%s, %s) failed\<newline>#   Expected: %s\<newline>#   Found: %s''
          [ArgText expected_source, ArgText value_source, ArgCharPtr expected, ArgCharPtr value])
      else Inr s)"

definition CheckNonEqualsHelper_str ::
  "string \<Rightarrow> int \<Rightarrow> string \<Rightarrow> address \<Rightarrow> string \<Rightarrow> address \<Rightarrow> 'a state_scheme
    \<Rightarrow> failure + 'a state_scheme" where
  "CheckNonEqualsHelper_str file line expected_source expected value_source value s =
     (if expected = value \<or>
         (expected \<noteq> NULL \<and> value \<noteq> NULL \<and> strcmp (mem s expected) (mem s value) = 0)
      then
        Inl (V8_Fatal file line
          ''CHECK_NE(%s, %s) failed\<newline>#   Value: %s''
          [ArgText expected_source, ArgText value_source, ArgCharPtr value])
      else Inr s)"

definition CheckEqualsHelper_ptr ::
  "string \<Rightarrow> int \<Rightarrow> string \<Rightarrow> address \<Rightarrow> string \<Rightarrow> address \<Rightarrow> 's \<Rightarrow> failure + 's" where
  "CheckEqualsHelper_ptr file line expected_source expected value_source value s =
     (if expected \<noteq> value then
        Inl (V8_Fatal file line
          ''CHECK_EQ(%s, %s) failed\<newline>#   Expected: %p\<newline>#   Found: %p''
          [ArgText expected_source, ArgText value_source, ArgVoidPtr expected, ArgVoidPtr value])
      else Inr s)"

definition CheckNonEqualsHelper_ptr ::
  "string \<Rightarrow> int \<Rightarrow> string \<Rightarrow> address \<Rightarrow> string \<Rightarrow> address \<Rightarrow> 's \<Rightarrow> failure + 's" where
  "CheckNonEqualsHelper_ptr file line expected_source expected value_source value s =
     (if expected = value then
        Inl (V8_Fatal file line
          ''CHECK_NE(%s, %s) failed\<newline>#   Value: %p''
          [ArgText expected_source, ArgText value_source, ArgVoidPtr value])
      else Inr s)"

text \<open>
  The double helpers move both operands into arrays of the free store, compare what
  they read back, and delete the arrays when the comparison passes.
\<close>

definition CheckEqualsHelper_double ::
  "string \<Rightarrow> int \<Rightarrow> string \<Rightarrow> 64 word \<Rightarrow> string \<Rightarrow> 64 word \<Rightarrow> 'a state_scheme
    \<Rightarrow> failure + 'a state_scheme" where
  "CheckEqualsHelper_double file line expected_source expected value_source value s =
     (case new_double s of
        Inl e \<Rightarrow> Inl e
      | Inr (exp, s1) \<Rightarrow>
          let s2 = store_double exp expected s1 in
          (case new_double s2 of
             Inl e \<Rightarrow> Inl e
           | Inr (val, s3) \<Rightarrow>
               let s4 = store_double val value s3 in
               if \<not> double_eq (load_double exp s4) (load_double val s4) then
                 Inl (V8_Fatal file line
                   ''CHECK_EQ(%s, %s) failed\<newline>#   Expected: %f\<newline>#   Found: %f''
                   [ArgText expected_source, ArgText value_source,
                    ArgDouble (load_double exp s4), ArgDouble (load_double val s4)])
               else Inr (delete_double val (delete_double exp s4))))"

definition CheckNonEqualsHelper_int64 ::
  "string \<Rightarrow> int \<Rightarrow> string \<Rightarrow> 64 word \<Rightarrow> string \<Rightarrow> 64 word \<Rightarrow> 's \<Rightarrow> failure + 's" where
  "CheckNonEqualsHelper_int64 file line expected_source expected value_source value s =
     (if expected = value then
        Inl (V8_Fatal file line
          ''CHECK_EQ(%s, %s) failed\<newline>#   Expected: %f\<newline>#   Found: %f''
          [ArgText expected_source, ArgText value_source, ArgInt64 expected, ArgInt64 value])
      else Inr s)"

definition CheckNonEqualsHelper_double ::
  "string \<Rightarrow> int \<Rightarrow> string \<Rightarrow> 64 word \<Rightarrow> string \<Rightarrow> 64 word \<Rightarrow> 'a state_scheme
    \<Rightarrow> failure + 'a state_scheme" where
  "CheckNonEqualsHelper_double file line expected_source expected value_source value s =
     (case new_double s of
        Inl e \<Rightarrow> Inl e
      | Inr (exp, s1) \<Rightarrow>
          let s2 = store_double exp expected s1 in
          (case new_double s2 of
             Inl e \<Rightarrow> Inl e
           | Inr (val, s3) \<Rightarrow>
               let s4 = store_double val value s3 in
               if double_eq (load_double exp s4) (load_double val s4) then
                 Inl (V8_Fatal file line
                   ''CHECK_NE(%s, %s) failed\<newline>#   Value: %f''
                   [ArgText expected_source, ArgText value_source,
                    ArgDouble (load_double val s4)])
               else Inr (delete_double val (delete_double exp s4))))"

section \<open>The macros\<close>

text \<open>
  The preprocessor symbols that select the expansions. Every macro is a function of
  the configuration the header is compiled under, of the call site
  (\<^verbatim>\<open>__FILE__\<close>, \<^verbatim>\<open>__LINE__\<close>), of the source text of its arguments (what \<^verbatim>\<open>#x\<close>
  yields) and of the argument expressions. An argument expression may have side
  effects: it maps a state to its value and the state after it. The two operands of a
  binary macro are evaluated in an order the language leaves open, so they are given
  as one expression yielding both values.
\<close>

record build_config =
  DEBUG :: bool
  ENABLE_EXTRA_CHECKS :: bool
  ENABLE_EXTRA_PPCCHECKS :: bool

type_synonym ('s, 'a) expr = "'s \<Rightarrow> 'a \<times> 's"

definition FATAL :: "build_config \<Rightarrow> string \<Rightarrow> int \<Rightarrow> string \<Rightarrow> 's \<Rightarrow> failure + 's" where
  "FATAL cfg file line msg s =
     (if DEBUG cfg then Inl (V8_Fatal file line ''%s'' [ArgText msg])
      else Inl (V8_Fatal [] 0 ''%s'' [ArgText msg]))"

definition UNIMPLEMENTED :: "build_config \<Rightarrow> string \<Rightarrow> int \<Rightarrow> 's \<Rightarrow> failure + 's" where
  "UNIMPLEMENTED cfg file line s =
     (if DEBUG cfg then Inl (V8_Fatal file line ''unimplemented code'' [])
      else Inl (V8_Fatal [] 0 ''unimplemented code'' []))"

definition UNREACHABLE :: "build_config \<Rightarrow> string \<Rightarrow> int \<Rightarrow> 's \<Rightarrow> failure + 's" where
  "UNREACHABLE cfg file line s =
     (if DEBUG cfg then Inl (V8_Fatal file line ''unreachable code'' [])
      else Inr s)"

definition CHECK ::
  "build_config \<Rightarrow> string \<Rightarrow> int \<Rightarrow> string \<Rightarrow> ('s, bool) expr \<Rightarrow> 's \<Rightarrow> failure + 's" where
  "CHECK cfg file line condition_source condition s =
     (case condition s of
        (c, s') \<Rightarrow>
          if \<not> c then Inl (V8_Fatal file line ''CHECK(%s) failed'' [ArgText condition_source])
          else Inr s')"

text \<open>
  \<^verbatim>\<open>CHECK_EQ\<close> and \<^verbatim>\<open>CHECK_NE\<close> call the overload the compiler selects; it is the
  first argument here.
\<close>

definition CHECK_EQ ::
  "build_config \<Rightarrow> (string \<Rightarrow> int \<Rightarrow> string \<Rightarrow> 'v \<Rightarrow> string \<Rightarrow> 'v \<Rightarrow> 's \<Rightarrow> failure + 's)
    \<Rightarrow> string \<Rightarrow> int \<Rightarrow> string \<Rightarrow> string \<Rightarrow> ('s, 'v \<times> 'v) expr \<Rightarrow> 's \<Rightarrow> failure + 's" where
  "CHECK_EQ cfg CheckEqualsHelper file line expected_source value_source operands s =
     (case operands s of
        ((expected, value), s') \<Rightarrow>
          CheckEqualsHelper file line expected_source expected value_source value s')"

definition CHECK_NE ::
  "build_config \<Rightarrow> (string \<Rightarrow> int \<Rightarrow> string \<Rightarrow> 'v \<Rightarrow> string \<Rightarrow> 'v \<Rightarrow> 's \<Rightarrow> failure + 's)
    \<Rightarrow> string \<Rightarrow> int \<Rightarrow> string \<Rightarrow> string \<Rightarrow> ('s, 'v \<times> 'v) expr \<Rightarrow> 's \<Rightarrow> failure + 's" where
  "CHECK_NE cfg CheckNonEqualsHelper file line unexpected_source value_source operands s =
     (case operands s of
        ((unexpected, value), s') \<Rightarrow>
          CheckNonEqualsHelper file line unexpected_source unexpected value_source value s')"

definition CHECK_GT ::
  "build_config \<Rightarrow> string \<Rightarrow> int \<Rightarrow> string \<Rightarrow> string \<Rightarrow> ('s, 'v::ord \<times> 'v) expr \<Rightarrow> 's
    \<Rightarrow> failure + 's" where
  "CHECK_GT cfg file line a_source b_source operands s =
     CHECK cfg file line (''('' @ a_source @ '') > ('' @ b_source @ '')'')
       (\<lambda>t. case operands t of ((a, b), t') \<Rightarrow> (a > b, t')) s"

definition CHECK_GE ::
  "build_config \<Rightarrow> string \<Rightarrow> int \<Rightarrow> string \<Rightarrow> string \<Rightarrow> ('s, 'v::ord \<times> 'v) expr \<Rightarrow> 's
    \<Rightarrow> failure + 's" where
  "CHECK_GE cfg file line a_source b_source operands s =
     CHECK cfg file line (''('' @ a_source @ '') >= ('' @ b_source @ '')'')
       (\<lambda>t. case operands t of ((a, b), t') \<Rightarrow> (a \<ge> b, t')) s"

definition CHECK_LT ::
  "build_config \<Rightarrow> string \<Rightarrow> int \<Rightarrow> string \<Rightarrow> string \<Rightarrow> ('s, 'v::ord \<times> 'v) expr \<Rightarrow> 's
    \<Rightarrow> failure + 's" where
  "CHECK_LT cfg file line a_source b_source operands s =
     CHECK cfg file line (''('' @ a_source @ '') < ('' @ b_source @ '')'')
       (\<lambda>t. case operands t of ((a, b), t') \<Rightarrow> (a < b, t')) s"

definition CHECK_LE ::
  "build_config \<Rightarrow> string \<Rightarrow> int \<Rightarrow> string \<Rightarrow> string \<Rightarrow> ('s, 'v::ord \<times> 'v) expr \<Rightarrow> 's
    \<Rightarrow> failure + 's" where
  "CHECK_LE cfg file line a_source b_source operands s =
     CHECK cfg file line (''('' @ a_source @ '') <= ('' @ b_source @ '')'')
       (\<lambda>t. case operands t of ((a, b), t') \<Rightarrow> (a \<le> b, t')) s"

text \<open>The development-only family: its expansion depends on \<^verbatim>\<open>DEBUG\<close>.\<close>

definition ASSERT_RESULT ::
  "build_config \<Rightarrow> string \<Rightarrow> int \<Rightarrow> string \<Rightarrow> ('s, bool) expr \<Rightarrow> 's \<Rightarrow> failure + 's" where
  "ASSERT_RESULT cfg file line expr_source expr s =
     (if DEBUG cfg then CHECK cfg file line expr_source expr s
      else (case expr s of (v, s') \<Rightarrow> Inr s'))"

definition ASSERT ::
  "build_config \<Rightarrow> string \<Rightarrow> int \<Rightarrow> string \<Rightarrow> ('s, bool) expr \<Rightarrow> 's \<Rightarrow> failure + 's" where
  "ASSERT cfg file line condition_source condition s =
     (if DEBUG cfg then CHECK cfg file line condition_source condition s
      else Inr s)"

definition ASSERT_EQ ::
  "build_config \<Rightarrow> (string \<Rightarrow> int \<Rightarrow> string \<Rightarrow> 'v \<Rightarrow> string \<Rightarrow> 'v \<Rightarrow> 's \<Rightarrow> failure + 's)
    \<Rightarrow> string \<Rightarrow> int \<Rightarrow> string \<Rightarrow> string \<Rightarrow> ('s, 'v \<times> 'v) expr \<Rightarrow> 's \<Rightarrow> failure + 's" where
  "ASSERT_EQ cfg CheckEqualsHelper file line v1_source v2_source operands s =
     (if DEBUG cfg then CHECK_EQ cfg CheckEqualsHelper file line v1_source v2_source operands s
      else Inr s)"

definition ASSERT_NE ::
  "build_config \<Rightarrow> (string \<Rightarrow> int \<Rightarrow> string \<Rightarrow> 'v \<Rightarrow> string \<Rightarrow> 'v \<Rightarrow> 's \<Rightarrow> failure + 's)
    \<Rightarrow> string \<Rightarrow> int \<Rightarrow> string \<Rightarrow> string \<Rightarrow> ('s, 'v \<times> 'v) expr \<Rightarrow> 's \<Rightarrow> failure + 's" where
  "ASSERT_NE cfg CheckNonEqualsHelper file line v1_source v2_source operands s =
     (if DEBUG cfg then CHECK_NE cfg CheckNonEqualsHelper file line v1_source v2_source operands s
      else Inr s)"

definition ASSERT_GE ::
  "build_config \<Rightarrow> string \<Rightarrow> int \<Rightarrow> string \<Rightarrow> string \<Rightarrow> ('s, 'v::ord \<times> 'v) expr \<Rightarrow> 's
    \<Rightarrow> failure + 's" where
  "ASSERT_GE cfg file line v1_source v2_source operands s =
     (if DEBUG cfg then CHECK_GE cfg file line v1_source v2_source operands s
      else Inr s)"

definition ASSERT_LT ::
  "build_config \<Rightarrow> string \<Rightarrow> int \<Rightarrow> string \<Rightarrow> string \<Rightarrow> ('s, 'v::ord \<times> 'v) expr \<Rightarrow> 's
    \<Rightarrow> failure + 's" where
  "ASSERT_LT cfg file line v1_source v2_source operands s =
     (if DEBUG cfg then CHECK_LT cfg file line v1_source v2_source operands s
      else Inr s)"

definition ASSERT_LE ::
  "build_config \<Rightarrow> string \<Rightarrow> int \<Rightarrow> string \<Rightarrow> string \<Rightarrow> ('s, 'v::ord \<times> 'v) expr \<Rightarrow> 's
    \<Rightarrow> failure + 's" where
  "ASSERT_LE cfg file line v1_source v2_source operands s =
     (if DEBUG cfg then CHECK_LE cfg file line v1_source v2_source operands s
      else Inr s)"

text \<open>The two families of extra checks, each under a flag of its own.\<close>

definition EXTRA_CHECK ::
  "build_config \<Rightarrow> string \<Rightarrow> int \<Rightarrow> string \<Rightarrow> ('s, bool) expr \<Rightarrow> 's \<Rightarrow> failure + 's" where
  "EXTRA_CHECK cfg file line condition_source condition s =
     (if ENABLE_EXTRA_CHECKS cfg then CHECK cfg file line condition_source condition s
      else Inr s)"

definition PPCPORT_CHECK ::
  "build_config \<Rightarrow> string \<Rightarrow> int \<Rightarrow> string \<Rightarrow> ('s, bool) expr \<Rightarrow> 's \<Rightarrow> failure + 's" where
  "PPCPORT_CHECK cfg file line condition_source condition s =
     (if ENABLE_EXTRA_PPCCHECKS cfg then CHECK cfg file line condition_source condition s
      else Inr s)"

definition PPCPORT_UNIMPLEMENTED :: "build_config \<Rightarrow> string \<Rightarrow> int \<Rightarrow> 's \<Rightarrow> failure + 's" where
  "PPCPORT_UNIMPLEMENTED cfg file line s =
     (if ENABLE_EXTRA_PPCCHECKS cfg then UNIMPLEMENTED cfg file line s
      else Inr s)"

definition PPCPORT_UNSAFE_IMPLEMENTATION ::
  "build_config \<Rightarrow> string \<Rightarrow> int \<Rightarrow> 's \<Rightarrow> failure + 's" where
  "PPCPORT_UNSAFE_IMPLEMENTATION cfg file line s =
     (if ENABLE_EXTRA_PPCCHECKS cfg then Inr s else Inr s)"

section \<open>Notions the properties are stated with\<close>

text \<open>
  Equality of two nullable string references as the specification words it: two null
  references are equal, a null and a non-null one are unequal, two non-null ones are
  equal when their contents are the same bytes.
\<close>

definition string_equals :: "(address \<Rightarrow> string) \<Rightarrow> address \<Rightarrow> address \<Rightarrow> bool" where
  "string_equals m a b =
     (if a = NULL \<and> b = NULL then True
      else if a = NULL \<or> b = NULL then False
      else c_str (m a) = c_str (m b))"

text \<open>Running a statement \<open>n\<close> times in sequence, stopping where it does not return.\<close>

primrec repeat :: "nat \<Rightarrow> ('s \<Rightarrow> failure + 's) \<Rightarrow> 's \<Rightarrow> failure + 's" where
  "repeat 0 stmt s = Inr s"
| "repeat (Suc n) stmt s = (case stmt s of Inl e \<Rightarrow> Inl e | Inr s' \<Rightarrow> repeat n stmt s')"

text \<open>
  A state to evaluate the helpers in: the strings \<^verbatim>\<open>"abc"\<close> at the addresses 1 and 2
  (and everywhere else but 3), \<^verbatim>\<open>"abd"\<close> at the address 3, no live array, and a free
  store with room for \<open>n\<close> arrays.
\<close>

definition example_state :: "nat \<Rightarrow> state" where
  "example_state n =
     \<lparr>mem = (\<lambda>a. if a = 3 then ''abd'' else ''abc''), cells = [], room = n\<rparr>"

text \<open>
  The value an argument expression yields in a state and the state it leaves; for the
  two operands of a binary macro, the value of each.
\<close>

definition value_of :: "('s, 'a) expr \<Rightarrow> 's \<Rightarrow> 'a" where
  "value_of e s = fst (e s)"

definition state_after :: "('s, 'a) expr \<Rightarrow> 's \<Rightarrow> 's" where
  "state_after e s = snd (e s)"

definition lhs :: "('s, 'a \<times> 'a) expr \<Rightarrow> 's \<Rightarrow> 'a" where
  "lhs operands s = fst (fst (operands s))"

definition rhs :: "('s, 'a \<times> 'a) expr \<Rightarrow> 's \<Rightarrow> 'a" where
  "rhs operands s = snd (fst (operands s))"

text \<open>
  An argument expression with a side effect, such as \<^verbatim>\<open>++calls == 0\<close>: it counts
  its evaluations in the state and yields false. An expression without side effects
  that yields \<open>v\<close> is \<open>Pair v\<close>.
\<close>

definition count_up :: "(nat, bool) expr" where
  "count_up n = (False, Suc n)"

text \<open>Three builds: development, production, and production with the PPC checks.\<close>

definition development :: build_config where
  "development = \<lparr>DEBUG = True, ENABLE_EXTRA_CHECKS = False, ENABLE_EXTRA_PPCCHECKS = False\<rparr>"

definition production :: build_config where
  "production = \<lparr>DEBUG = False, ENABLE_EXTRA_CHECKS = False, ENABLE_EXTRA_PPCCHECKS = False\<rparr>"

definition ppc_checks :: build_config where
  "ppc_checks = \<lparr>DEBUG = False, ENABLE_EXTRA_CHECKS = False, ENABLE_EXTRA_PPCCHECKS = True\<rparr>"

section \<open>Properties\<close>

lemma of_char_zero_iff: "of_char y = (0::nat) \<longleftrightarrow> y = CHR 0x00"
  using of_char_eq_iff [of y "CHR 0x00", where ?'a = nat] by simp

lemma strcmp_zero_iff: "strcmp xs ys = 0 \<longleftrightarrow> c_str xs = c_str ys"
  unfolding c_str_def
  by (induction xs ys rule: strcmp.induct) (auto simp: of_char_zero_iff)

lemma aborts_simps [simp]:
  "aborts (Inl (V8_Fatal f l fmt as)) = True"
  "aborts (Inl bad_alloc) = False"
  "aborts (Inr s) = False"
  by (simp_all add: aborts_def)

lemma str_equals_aborts_iff:
  "aborts (CheckEqualsHelper_str file line es e vs v s) \<longleftrightarrow> \<not> string_equals (mem s) e v"
  by (auto simp: CheckEqualsHelper_str_def string_equals_def strcmp_zero_iff)

lemma str_non_equals_aborts_iff:
  "aborts (CheckNonEqualsHelper_str file line es e vs v s) \<longleftrightarrow> string_equals (mem s) e v"
  by (auto simp: CheckNonEqualsHelper_str_def string_equals_def strcmp_zero_iff)

lemma str_equals_returns:
  "\<not> aborts (CheckEqualsHelper_str file line es e vs v s) \<Longrightarrow>
    CheckEqualsHelper_str file line es e vs v s = Inr s"
  by (auto simp: CheckEqualsHelper_str_def split: if_splits)

lemma str_non_equals_returns:
  "\<not> aborts (CheckNonEqualsHelper_str file line es e vs v s) \<Longrightarrow>
    CheckNonEqualsHelper_str file line es e vs v s = Inr s"
  by (auto simp: CheckNonEqualsHelper_str_def split: if_splits)

subsection \<open>Raw byte strings\<close>

text \<open>
  C1. For the \<^verbatim>\<open>const char*\<close> helpers, with any file, line and source texts and any
  two nullable string references, equality is equality of contents: the equals helper
  returns when both references are null, aborts when exactly one is null, and for two
  non-null references aborts exactly when the contents differ; the not-equals helper
  aborts exactly when the two references are equal in that sense. A helper that does
  not abort returns and leaves the state as it was.
\<close>

theorem string_helpers_content_equality:
  "(expected = NULL \<and> value = NULL \<longrightarrow>
      CheckEqualsHelper_str file line es expected vs value s = Inr s) \<and>
   ((expected = NULL) \<noteq> (value = NULL) \<longrightarrow>
      aborts (CheckEqualsHelper_str file line es expected vs value s)) \<and>
   (expected \<noteq> NULL \<and> value \<noteq> NULL \<longrightarrow>
      (aborts (CheckEqualsHelper_str file line es expected vs value s) \<longleftrightarrow>
         c_str (mem s expected) \<noteq> c_str (mem s value))) \<and>
   (aborts (CheckEqualsHelper_str file line es expected vs value s) \<longleftrightarrow>
      \<not> string_equals (mem s) expected value) \<and>
   (aborts (CheckNonEqualsHelper_str file line es expected vs value s) \<longleftrightarrow>
      string_equals (mem s) expected value) \<and>
   (\<not> aborts (CheckEqualsHelper_str file line es expected vs value s) \<longrightarrow>
      CheckEqualsHelper_str file line es expected vs value s = Inr s) \<and>
   (\<not> aborts (CheckNonEqualsHelper_str file line es expected vs value s) \<longrightarrow>
      CheckNonEqualsHelper_str file line es expected vs value s = Inr s)"
proof -
  have eq: "aborts (CheckEqualsHelper_str file line es expected vs value s) \<longleftrightarrow>
      \<not> string_equals (mem s) expected value"
    by (rule str_equals_aborts_iff)
  have ne: "aborts (CheckNonEqualsHelper_str file line es expected vs value s) \<longleftrightarrow>
      string_equals (mem s) expected value"
    by (rule str_non_equals_aborts_iff)
  have both_null: "expected = NULL \<and> value = NULL \<longrightarrow>
      CheckEqualsHelper_str file line es expected vs value s = Inr s"
    by (simp add: CheckEqualsHelper_str_def)
  have one_null: "(expected = NULL) \<noteq> (value = NULL) \<longrightarrow>
      aborts (CheckEqualsHelper_str file line es expected vs value s)"
    unfolding eq by (auto simp: string_equals_def)
  have no_null: "expected \<noteq> NULL \<and> value \<noteq> NULL \<longrightarrow>
      (aborts (CheckEqualsHelper_str file line es expected vs value s) \<longleftrightarrow>
         c_str (mem s expected) \<noteq> c_str (mem s value))"
    unfolding eq by (simp add: string_equals_def)
  have eq_ret: "\<not> aborts (CheckEqualsHelper_str file line es expected vs value s) \<longrightarrow>
      CheckEqualsHelper_str file line es expected vs value s = Inr s"
    by (simp add: str_equals_returns)
  have ne_ret: "\<not> aborts (CheckNonEqualsHelper_str file line es expected vs value s) \<longrightarrow>
      CheckNonEqualsHelper_str file line es expected vs value s = Inr s"
    by (simp add: str_non_equals_returns)
  show ?thesis
    by (intro conjI) (fact both_null one_null no_null eq ne eq_ret ne_ret)+
qed

text \<open>
  The scenarios of the specification: null and null, null and \<^verbatim>\<open>"abc"\<close>,
  \<^verbatim>\<open>"abc"\<close> and \<^verbatim>\<open>"abd"\<close>, and \<^verbatim>\<open>"abc"\<close> at two different addresses.
\<close>

theorem string_helpers_content_equality_witness:
  "CheckEqualsHelper_str ''t.cc'' 7 ''a'' NULL ''b'' NULL (example_state 0) = Inr (example_state 0) \<and>
   aborts (CheckEqualsHelper_str ''t.cc'' 7 ''a'' NULL ''b'' 1 (example_state 0)) \<and>
   aborts (CheckEqualsHelper_str ''t.cc'' 7 ''a'' 1 ''b'' 3 (example_state 0)) \<and>
   \<not> aborts (CheckEqualsHelper_str ''t.cc'' 7 ''a'' 1 ''b'' 2 (example_state 0)) \<and>
   aborts (CheckNonEqualsHelper_str ''t.cc'' 7 ''a'' 1 ''b'' 2 (example_state 0)) \<and>
   CheckNonEqualsHelper_str ''t.cc'' 7 ''a'' 1 ''b'' 3 (example_state 0) = Inr (example_state 0)"
proof -
  let ?s = "example_state 0"
  have abc: "mem ?s 1 = ''abc''" "mem ?s 2 = ''abc''" and abd: "mem ?s 3 = ''abd''"
    by (simp_all add: example_state_def)
  have differ: "c_str (mem ?s 1) \<noteq> c_str (mem ?s 3)"
    unfolding abc abd by (simp add: c_str_def)
  have same: "c_str (mem ?s 1) = c_str (mem ?s 2)"
    unfolding abc by simp
  have nonnull: "(1::address) \<noteq> NULL" "(2::address) \<noteq> NULL" "(3::address) \<noteq> NULL"
    by (simp_all add: NULL_def)
  note both_null = string_helpers_content_equality
    [of NULL NULL "''t.cc''" 7 "''a''" "''b''" ?s]
  note one_null = string_helpers_content_equality
    [of NULL 1 "''t.cc''" 7 "''a''" "''b''" ?s]
  note unequal = string_helpers_content_equality
    [of 1 3 "''t.cc''" 7 "''a''" "''b''" ?s]
  note equal = string_helpers_content_equality
    [of 1 2 "''t.cc''" 7 "''a''" "''b''" ?s]
  have r1: "CheckEqualsHelper_str ''t.cc'' 7 ''a'' NULL ''b'' NULL ?s = Inr ?s"
    using both_null by blast
  have r2: "aborts (CheckEqualsHelper_str ''t.cc'' 7 ''a'' NULL ''b'' 1 ?s)"
    using one_null nonnull(1) by blast
  have r3: "aborts (CheckEqualsHelper_str ''t.cc'' 7 ''a'' 1 ''b'' 3 ?s)"
    using unequal nonnull differ by blast
  have r4: "\<not> aborts (CheckEqualsHelper_str ''t.cc'' 7 ''a'' 1 ''b'' 2 ?s)"
    using equal nonnull same by blast
  have eq12: "string_equals (mem ?s) 1 2"
    using equal r4 by blast
  have r5: "aborts (CheckNonEqualsHelper_str ''t.cc'' 7 ''a'' 1 ''b'' 2 ?s)"
    using equal eq12 by blast
  have r6: "CheckNonEqualsHelper_str ''t.cc'' 7 ''a'' 1 ''b'' 3 ?s = Inr ?s"
    using unequal r3 by blast
  show ?thesis
    by (intro conjI) (fact r1 r2 r3 r4 r5 r6)+
qed

subsection \<open>Equals and not-equals are complementary\<close>

text \<open>
  C10. For 32-bit signed integers and for raw byte strings, the equals helper and the
  not-equals helper abort on complementary conditions: for every pair of operands, and
  whatever the files, lines and source texts of the two calls, the equals helper aborts
  if and only if the not-equals helper does not.
\<close>

theorem equals_and_non_equals_complementary:
  "(aborts (CheckEqualsHelper_int file line es (e::32 word) vs v s) \<longleftrightarrow>
      \<not> aborts (CheckNonEqualsHelper_int file' line' es' e vs' v s')) \<and>
   (aborts (CheckEqualsHelper_str file line es p vs q t) \<longleftrightarrow>
      \<not> aborts (CheckNonEqualsHelper_str file' line' es' p vs' q t))"
  by (simp add: str_equals_aborts_iff str_non_equals_aborts_iff
      CheckEqualsHelper_int_def CheckNonEqualsHelper_int_def)

theorem equals_and_non_equals_complementary_witness:
  "aborts (CheckEqualsHelper_int ''t.cc'' 7 ''a'' 4 ''b'' 5 ()) \<and>
   \<not> aborts (CheckNonEqualsHelper_int ''u.cc'' 8 ''c'' 4 ''d'' 5 ()) \<and>
   \<not> aborts (CheckEqualsHelper_str ''t.cc'' 7 ''a'' 1 ''b'' 2 (example_state 0)) \<and>
   aborts (CheckNonEqualsHelper_str ''u.cc'' 8 ''c'' 1 ''d'' 2 (example_state 0))"
proof -
  have int_fails: "aborts (CheckEqualsHelper_int ''t.cc'' 7 ''a'' 4 ''b'' 5 ())"
    by (simp add: CheckEqualsHelper_int_def)
  have str_passes: "\<not> aborts (CheckEqualsHelper_str ''t.cc'' 7 ''a'' 1 ''b'' 2 (example_state 0))"
    by (simp add: CheckEqualsHelper_str_def NULL_def example_state_def)
  note c = equals_and_non_equals_complementary
    [of "''t.cc''" 7 "''a''" 4 "''b''" 5 "()" "''u.cc''" 8 "''c''" "''d''" "()" 1 2
      "example_state 0"]
  have int_ne: "\<not> aborts (CheckNonEqualsHelper_int ''u.cc'' 8 ''c'' 4 ''d'' 5 ())"
    using c [THEN conjunct1] int_fails by (rule iffD1)
  have str_ne: "aborts (CheckNonEqualsHelper_str ''u.cc'' 8 ''c'' 1 ''d'' 2 (example_state 0))"
    using c [THEN conjunct2] str_passes by (simp only: simp_thms)
  show ?thesis
    by (intro conjI) (fact int_fails int_ne str_passes str_ne)+
qed

subsection \<open>Pointers\<close>

text \<open>
  C8. For the \<^verbatim>\<open>const void*\<close> helpers equality is identity, never the contents
  pointed to: for every pair of pointers the equals helper aborts exactly when the
  addresses differ and the not-equals helper exactly when they are the same; so two
  addresses that hold the same contents, when they are different addresses, compare
  unequal.
\<close>

theorem pointer_helpers_identity:
  "(aborts (CheckEqualsHelper_ptr fl ln es expected vs found s) \<longleftrightarrow> expected \<noteq> found) \<and>
   (aborts (CheckNonEqualsHelper_ptr fl ln es expected vs found s) \<longleftrightarrow> expected = found) \<and>
   (expected \<noteq> found \<and> mem s expected = mem s found \<longrightarrow>
      aborts (CheckEqualsHelper_ptr fl ln es expected vs found s)) \<and>
   (expected = found \<longrightarrow> CheckEqualsHelper_ptr fl ln es expected vs found s = Inr s) \<and>
   (expected \<noteq> found \<longrightarrow> CheckNonEqualsHelper_ptr fl ln es expected vs found s = Inr s)"
  by (simp add: CheckEqualsHelper_ptr_def CheckNonEqualsHelper_ptr_def)

theorem pointer_helpers_identity_witness:
  "mem (example_state 0) 1 = mem (example_state 0) 2 \<and>
   aborts (CheckEqualsHelper_ptr ''t.cc'' 7 ''a'' 1 ''b'' 2 (example_state 0)) \<and>
   CheckNonEqualsHelper_ptr ''t.cc'' 7 ''a'' 1 ''b'' 2 (example_state 0) = Inr (example_state 0) \<and>
   CheckEqualsHelper_ptr ''t.cc'' 7 ''a'' 1 ''b'' 1 (example_state 0) = Inr (example_state 0)"
proof -
  have same: "mem (example_state 0) 1 = mem (example_state 0) 2"
    by (simp add: example_state_def)
  have apart: "(1::address) \<noteq> 2"
    by simp
  show ?thesis
    using same apart
      pointer_helpers_identity [where expected = 1 and found = 2 and fl = "''t.cc''"
        and ln = 7 and es = "''a''" and vs = "''b''" and s = "example_state 0"]
      pointer_helpers_identity [where expected = 1 and found = 1 and fl = "''t.cc''"
        and ln = 7 and es = "''a''" and vs = "''b''" and s = "example_state 0"]
    by blast
qed

subsection \<open>64-bit integers\<close>

text \<open>
  The equals helper passes each operand to the reporter as two 32-bit halves, the high
  word first, each for a \<^verbatim>\<open>%08x\<close> of the format.
\<close>

lemma int64_equals_message:
  "expected \<noteq> value \<Longrightarrow>
    CheckEqualsHelper_int64 file line es expected vs value s =
      Inl (V8_Fatal file line
        ''CHECK_EQ(%s, %s) failed\<newline>#   Expected: 0x%08x%08x\<newline>#   Found: 0x%08x%08x''
        [ArgText es, ArgText vs,
         ArgUInt32 (ucast (drop_bit 32 expected)), ArgUInt32 (ucast expected),
         ArgUInt32 (ucast (drop_bit 32 value)), ArgUInt32 (ucast value)])"
proof -
  have high: "(ucast (signed_drop_bit 32 w) :: 32 word) = ucast (drop_bit 32 w)"
    for w :: "64 word"
    by (rule bit_word_eqI) (auto simp add: bit_simps)
  assume "expected \<noteq> value"
  then show ?thesis by (simp add: CheckEqualsHelper_int64_def high)
qed

lemma int64_equals_message_example:
  "CheckEqualsHelper_int64 ''t.cc'' 7 ''a'' 0x0000000100000002 ''b'' 0x0000000000000003 () =
      Inl (V8_Fatal ''t.cc'' 7
        ''CHECK_EQ(%s, %s) failed\<newline>#   Expected: 0x%08x%08x\<newline>#   Found: 0x%08x%08x''
        [ArgText ''a'', ArgText ''b'', ArgUInt32 1, ArgUInt32 2, ArgUInt32 0, ArgUInt32 3])"
  by (simp add: CheckEqualsHelper_int64_def)

text \<open>
  C2. The claim is that in both modes the message of a failed 64-bit comparison renders
  each operand as two 32-bit hexadecimal halves and names the check that failed. The
  not-equals helper, called with two equal operands, passes the format of
  \<^verbatim>\<open>CHECK_EQ\<close> with two \<^verbatim>\<open>%f\<close> conversions, and the two operands whole.
\<close>

theorem int64_non_equals_message:
  "CheckNonEqualsHelper_int64 ''t.cc'' 7 ''a'' 0x0000000100000002 ''b'' 0x0000000100000002 () =
      Inl (V8_Fatal ''t.cc'' 7
        ''CHECK_EQ(%s, %s) failed\<newline>#   Expected: %f\<newline>#   Found: %f''
        [ArgText ''a'', ArgText ''b'', ArgInt64 0x0000000100000002, ArgInt64 0x0000000100000002])"
  by (simp add: CheckNonEqualsHelper_int64_def)

subsection \<open>The free store and the double helpers\<close>

text \<open>A new array's address is above every live one.\<close>

lemma fold_max_lower: "a \<le> fold max xs (a::nat)"
proof (induction xs arbitrary: a)
  case Nil
  show ?case by simp
next
  case (Cons x xs)
  have "a \<le> max x a" by simp
  also have "max x a \<le> fold max xs (max x a)" by (rule Cons.IH)
  finally show ?case by simp
qed

lemma fold_max_upper: "x \<in> set xs \<Longrightarrow> x \<le> fold max xs (a::nat)"
proof (induction xs arbitrary: a)
  case Nil
  then show ?case by simp
next
  case (Cons y ys)
  show ?case
  proof (cases "x = y")
    case True
    have "x \<le> max y a" using True by simp
    also have "max y a \<le> fold max ys (max y a)" by (rule fold_max_lower)
    finally show ?thesis by simp
  next
    case False
    with Cons.prems have "x \<in> set ys" by simp
    then show ?thesis using Cons.IH by simp
  qed
qed

lemma fresh_not_live: "c \<in> set cs \<Longrightarrow> fst c \<noteq> fresh cs"
proof -
  assume "c \<in> set cs"
  then have "fst c \<in> set (map fst cs)" by simp
  then have "fst c \<le> fold max (map fst cs) 0" by (rule fold_max_upper)
  then show ?thesis by (simp add: fresh_def)
qed

lemma filter_fresh: "filter (\<lambda>c. fst c \<noteq> fresh cs) cs = cs"
  by (rule filter_True) (simp add: fresh_not_live)

lemma fresh_Cons: "fresh ((p, v) # cs) \<noteq> p"
  using fresh_not_live [of "(p, v)" "(p, v) # cs"] by simp

lemma filter_fresh_Cons:
  "filter (\<lambda>c. fst c \<noteq> fresh ((p, v) # cs)) cs = cs"
proof -
  have "fst c \<noteq> fresh ((p, v) # cs)" if "c \<in> set cs" for c
    using that fresh_not_live [of c "(p, v) # cs"] by simp
  then show ?thesis by (intro filter_True ballI)
qed

text \<open>
  With room for fewer than two arrays one of the two allocations fails; with room for
  two, the helper reads back what it stored, and on a passing check the two deletions
  restore the free store.
\<close>

lemma double_equals_exhausted:
  "room s < 2 \<Longrightarrow>
    CheckEqualsHelper_double file line es e vs v s = Inl bad_alloc"
  by (auto simp: CheckEqualsHelper_double_def new_double_def store_double_def Let_def)

lemma double_non_equals_exhausted:
  "room s < 2 \<Longrightarrow>
    CheckNonEqualsHelper_double file line es e vs v s = Inl bad_alloc"
  by (auto simp: CheckNonEqualsHelper_double_def new_double_def store_double_def Let_def)

lemma double_equals_passes:
  assumes "2 \<le> room s" and "double_eq e v"
  shows "CheckEqualsHelper_double file line es e vs v s = Inr s"
  using assms
  by (simp add: CheckEqualsHelper_double_def new_double_def store_double_def load_double_def
      delete_double_def Let_def filter_fresh filter_fresh_Cons fresh_Cons fresh_Cons [symmetric])

lemma double_non_equals_passes:
  assumes "2 \<le> room s" and "\<not> double_eq e v"
  shows "CheckNonEqualsHelper_double file line es e vs v s = Inr s"
  using assms
  by (simp add: CheckNonEqualsHelper_double_def new_double_def store_double_def load_double_def
      delete_double_def Let_def filter_fresh filter_fresh_Cons fresh_Cons fresh_Cons [symmetric])

lemma double_equals_fails:
  assumes "2 \<le> room s" and "\<not> double_eq e v"
  shows "CheckEqualsHelper_double file line es e vs v s =
    Inl (V8_Fatal file line
      ''CHECK_EQ(%s, %s) failed\<newline>#   Expected: %f\<newline>#   Found: %f''
      [ArgText es, ArgText vs, ArgDouble e, ArgDouble v])"
  using assms
  by (simp add: CheckEqualsHelper_double_def new_double_def store_double_def load_double_def
      delete_double_def Let_def filter_fresh filter_fresh_Cons fresh_Cons fresh_Cons [symmetric])

lemma double_non_equals_fails:
  assumes "2 \<le> room s" and "double_eq e v"
  shows "CheckNonEqualsHelper_double file line es e vs v s =
    Inl (V8_Fatal file line ''CHECK_NE(%s, %s) failed\<newline>#   Value: %f''
      [ArgText es, ArgText vs, ArgDouble v])"
  using assms
  by (simp add: CheckNonEqualsHelper_double_def new_double_def store_double_def load_double_def
      delete_double_def Let_def filter_fresh filter_fresh_Cons fresh_Cons fresh_Cons [symmetric])

lemma repeat_unchanged: "stmt s = Inr s \<Longrightarrow> repeat n stmt s = Inr s"
  by (induction n) simp_all

text \<open>The bits of 1.0, 2.0, a quiet NaN and the negative zero.\<close>

lemma one_is_one: "double_eq 0x3FF0000000000000 0x3FF0000000000000"
  by (simp add: double_eq_def is_nan_def)

lemma one_is_not_two: "\<not> double_eq 0x3FF0000000000000 0x4000000000000000"
  by (simp add: double_eq_def is_nan_def)

lemma nan_is_not_nan: "\<not> double_eq 0x7FF8000000000000 0x7FF8000000000000"
  by (simp add: double_eq_def is_nan_def)

lemma zeros: "double_eq 0x8000000000000000 0"
  by (simp add: double_eq_def is_nan_def)

text \<open>
  C3, as claimed: the success path of every helper uses only operations that cannot
  fail and has no side effect such as a memory allocation. It is false of the double
  helpers: they allocate two arrays before they compare, so a passing check on an
  exhausted free store does not return, and the first allocation changes the free
  store.
\<close>

theorem passing_double_check_allocates:
  "double_eq 0x3FF0000000000000 0x3FF0000000000000 \<and>
   CheckEqualsHelper_double ''t.cc'' 7 ''a'' 0x3FF0000000000000 ''b'' 0x3FF0000000000000
     (example_state 0) = Inl bad_alloc \<and>
   \<not> double_eq 0x3FF0000000000000 0x4000000000000000 \<and>
   CheckNonEqualsHelper_double ''t.cc'' 7 ''a'' 0x3FF0000000000000 ''b'' 0x4000000000000000
     (example_state 0) = Inl bad_alloc \<and>
   new_double (example_state 2) = Inr (1, (example_state 1)\<lparr>cells := [(1, 0)]\<rparr>)"
proof -
  have "room (example_state 0) < 2"
    by (simp add: example_state_def)
  then have
    "CheckEqualsHelper_double ''t.cc'' 7 ''a'' 0x3FF0000000000000 ''b'' 0x3FF0000000000000
       (example_state 0) = Inl bad_alloc"
    "CheckNonEqualsHelper_double ''t.cc'' 7 ''a'' 0x3FF0000000000000 ''b'' 0x4000000000000000
       (example_state 0) = Inl bad_alloc"
    by (simp_all add: double_equals_exhausted double_non_equals_exhausted)
  moreover have "new_double (example_state 2) = Inr (1, (example_state 1)\<lparr>cells := [(1, 0)]\<rparr>)"
    by (simp add: new_double_def example_state_def fresh_def)
  ultimately show ?thesis
    using one_is_one one_is_not_two by simp
qed

text \<open>
  C3, amended. A passing check of the int, int64, intptr, pointer and string helpers
  returns and leaves the state as it was, however often it is evaluated. The double
  helpers allocate two arrays on every call: where the free store has room for fewer
  than two they throw \<^verbatim>\<open>bad_alloc\<close>, whatever the operands; where it has room for two,
  a passing check deletes both arrays and returns with the state as it was, however
  often it is evaluated.
\<close>

theorem passing_checks_leave_state:
  "(i1 = i2 \<longrightarrow> repeat n (CheckEqualsHelper_int fl ln es i1 vs i2) s = Inr s) \<and>
   (i1 \<noteq> i2 \<longrightarrow> repeat n (CheckNonEqualsHelper_int fl ln es i1 vs i2) s = Inr s) \<and>
   (w1 = w2 \<longrightarrow> repeat n (CheckEqualsHelper_int64 fl ln es w1 vs w2) s = Inr s) \<and>
   (w1 \<noteq> w2 \<longrightarrow> repeat n (CheckNonEqualsHelper_int64 fl ln es w1 vs w2) s = Inr s) \<and>
   (i1 = i2 \<longrightarrow> repeat n (CheckEqualsHelper_intptr fl ln es i1 vs i2) s = Inr s) \<and>
   (p1 = p2 \<longrightarrow> repeat n (CheckEqualsHelper_ptr fl ln es p1 vs p2) s = Inr s) \<and>
   (p1 \<noteq> p2 \<longrightarrow> repeat n (CheckNonEqualsHelper_ptr fl ln es p1 vs p2) s = Inr s) \<and>
   (string_equals (mem t) p1 p2 \<longrightarrow>
      repeat n (CheckEqualsHelper_str fl ln es p1 vs p2) t = Inr t) \<and>
   (\<not> string_equals (mem t) p1 p2 \<longrightarrow>
      repeat n (CheckNonEqualsHelper_str fl ln es p1 vs p2) t = Inr t) \<and>
   (room t < 2 \<longrightarrow>
      CheckEqualsHelper_double fl ln es d1 vs d2 t = Inl bad_alloc \<and>
      CheckNonEqualsHelper_double fl ln es d1 vs d2 t = Inl bad_alloc) \<and>
   (2 \<le> room t \<and> double_eq d1 d2 \<longrightarrow>
      repeat n (CheckEqualsHelper_double fl ln es d1 vs d2) t = Inr t) \<and>
   (2 \<le> room t \<and> \<not> double_eq d1 d2 \<longrightarrow>
      repeat n (CheckNonEqualsHelper_double fl ln es d1 vs d2) t = Inr t)"
proof -
  have int_eq: "i1 = i2 \<longrightarrow> repeat n (CheckEqualsHelper_int fl ln es i1 vs i2) s = Inr s"
    by (simp add: repeat_unchanged CheckEqualsHelper_int_def)
  have int_ne: "i1 \<noteq> i2 \<longrightarrow> repeat n (CheckNonEqualsHelper_int fl ln es i1 vs i2) s = Inr s"
    by (simp add: repeat_unchanged CheckNonEqualsHelper_int_def)
  have int64_eq: "w1 = w2 \<longrightarrow> repeat n (CheckEqualsHelper_int64 fl ln es w1 vs w2) s = Inr s"
    by (simp add: repeat_unchanged CheckEqualsHelper_int64_def)
  have int64_ne: "w1 \<noteq> w2 \<longrightarrow> repeat n (CheckNonEqualsHelper_int64 fl ln es w1 vs w2) s = Inr s"
    by (simp add: repeat_unchanged CheckNonEqualsHelper_int64_def)
  have intptr_eq: "i1 = i2 \<longrightarrow> repeat n (CheckEqualsHelper_intptr fl ln es i1 vs i2) s = Inr s"
    by (simp add: repeat_unchanged CheckEqualsHelper_intptr_def)
  have ptr_eq: "p1 = p2 \<longrightarrow> repeat n (CheckEqualsHelper_ptr fl ln es p1 vs p2) s = Inr s"
    by (simp add: repeat_unchanged CheckEqualsHelper_ptr_def)
  have ptr_ne: "p1 \<noteq> p2 \<longrightarrow> repeat n (CheckNonEqualsHelper_ptr fl ln es p1 vs p2) s = Inr s"
    by (simp add: repeat_unchanged CheckNonEqualsHelper_ptr_def)
  have str_eq: "string_equals (mem t) p1 p2 \<longrightarrow>
      repeat n (CheckEqualsHelper_str fl ln es p1 vs p2) t = Inr t"
    using str_equals_aborts_iff [of fl ln es p1 vs p2 t]
      str_equals_returns [of fl ln es p1 vs p2 t]
    by (simp add: repeat_unchanged)
  have str_ne: "\<not> string_equals (mem t) p1 p2 \<longrightarrow>
      repeat n (CheckNonEqualsHelper_str fl ln es p1 vs p2) t = Inr t"
    using str_non_equals_aborts_iff [of fl ln es p1 vs p2 t]
      str_non_equals_returns [of fl ln es p1 vs p2 t]
    by (simp add: repeat_unchanged)
  have exhausted: "room t < 2 \<longrightarrow>
      CheckEqualsHelper_double fl ln es d1 vs d2 t = Inl bad_alloc \<and>
      CheckNonEqualsHelper_double fl ln es d1 vs d2 t = Inl bad_alloc"
    by (simp add: double_equals_exhausted double_non_equals_exhausted)
  have double_eq: "2 \<le> room t \<and> double_eq d1 d2 \<longrightarrow>
      repeat n (CheckEqualsHelper_double fl ln es d1 vs d2) t = Inr t"
    by (simp add: repeat_unchanged double_equals_passes)
  have double_ne: "2 \<le> room t \<and> \<not> double_eq d1 d2 \<longrightarrow>
      repeat n (CheckNonEqualsHelper_double fl ln es d1 vs d2) t = Inr t"
    by (simp add: repeat_unchanged double_non_equals_passes)
  show ?thesis
    by (intro conjI) (fact int_eq int_ne int64_eq int64_ne intptr_eq ptr_eq ptr_ne str_eq str_ne
        exhausted double_eq double_ne)+
qed

theorem passing_checks_leave_state_witness:
  "repeat 3 (CheckEqualsHelper_int ''t.cc'' 7 ''a'' 4 ''b'' 4) (example_state 2) =
     Inr (example_state 2) \<and>
   repeat 3 (CheckNonEqualsHelper_int64 ''t.cc'' 7 ''a'' 8 ''b'' 9) (example_state 2) =
     Inr (example_state 2) \<and>
   repeat 3 (CheckEqualsHelper_int64 ''t.cc'' 7 ''a'' 8 ''b'' 8) (example_state 2) =
     Inr (example_state 2) \<and>
   repeat 3 (CheckEqualsHelper_intptr ''t.cc'' 7 ''a'' 4 ''b'' 4) (example_state 2) =
     Inr (example_state 2) \<and>
   repeat 3 (CheckEqualsHelper_ptr ''t.cc'' 7 ''a'' 1 ''b'' 1) (example_state 2) =
     Inr (example_state 2) \<and>
   repeat 3 (CheckEqualsHelper_str ''t.cc'' 7 ''a'' 1 ''b'' 1) (example_state 2) =
     Inr (example_state 2) \<and>
   repeat 3 (CheckEqualsHelper_double ''t.cc'' 7 ''a'' 0x3FF0000000000000 ''b''
     0x3FF0000000000000) (example_state 2) = Inr (example_state 2) \<and>
   repeat 3 (CheckNonEqualsHelper_int ''t.cc'' 7 ''a'' 4 ''b'' 5) (example_state 2) =
     Inr (example_state 2) \<and>
   repeat 3 (CheckNonEqualsHelper_ptr ''t.cc'' 7 ''a'' 1 ''b'' 3) (example_state 2) =
     Inr (example_state 2) \<and>
   repeat 3 (CheckNonEqualsHelper_str ''t.cc'' 7 ''a'' 1 ''b'' 3) (example_state 2) =
     Inr (example_state 2) \<and>
   repeat 3 (CheckNonEqualsHelper_double ''t.cc'' 7 ''a'' 0x3FF0000000000000 ''b''
     0x4000000000000000) (example_state 2) = Inr (example_state 2) \<and>
   CheckEqualsHelper_double ''t.cc'' 7 ''a'' 0x3FF0000000000000 ''b'' 0x3FF0000000000000
     (example_state 1) = Inl bad_alloc"
proof -
  have room2: "2 \<le> room (example_state 2)" and room1: "room (example_state 1) < 2"
    by (simp_all add: example_state_def)
  have same_str: "string_equals (mem (example_state 2)) 1 1"
    by (simp add: string_equals_def NULL_def)
  have other_str: "\<not> string_equals (mem (example_state 2)) 1 3"
    by (simp add: string_equals_def NULL_def example_state_def c_str_def)
  have ints: "(4::32 word) \<noteq> 5" and int64s: "(8::64 word) \<noteq> 9" and ptrs: "(1::address) \<noteq> 3"
    by simp_all
  note passing = passing_checks_leave_state [where n = 3 and fl = "''t.cc''" and ln = 7
      and es = "''a''" and vs = "''b''" and s = "example_state 2" and t = "example_state 2"
      and ?i1.0 = 4 and ?i2.0 = 4 and ?w1.0 = 8 and ?w2.0 = 8 and ?p1.0 = 1 and ?p2.0 = 1
      and ?d1.0 = "0x3FF0000000000000" and ?d2.0 = "0x3FF0000000000000"]
  note failing = passing_checks_leave_state [where n = 3 and fl = "''t.cc''" and ln = 7
      and es = "''a''" and vs = "''b''" and s = "example_state 2" and t = "example_state 2"
      and ?i1.0 = 4 and ?i2.0 = 5 and ?w1.0 = 8 and ?w2.0 = 9 and ?p1.0 = 1 and ?p2.0 = 3
      and ?d1.0 = "0x3FF0000000000000" and ?d2.0 = "0x4000000000000000"]
  note short = passing_checks_leave_state [where n = 3 and fl = "''t.cc''" and ln = 7
      and es = "''a''" and vs = "''b''" and s = "example_state 1" and t = "example_state 1"
      and ?i1.0 = 4 and ?i2.0 = 4 and ?w1.0 = 8 and ?w2.0 = 8 and ?p1.0 = 1 and ?p2.0 = 1
      and ?d1.0 = "0x3FF0000000000000" and ?d2.0 = "0x3FF0000000000000"]
  have r1: "repeat 3 (CheckEqualsHelper_int ''t.cc'' 7 ''a'' 4 ''b'' 4) (example_state 2) =
      Inr (example_state 2)"
    using passing by blast
  have r2: "repeat 3 (CheckNonEqualsHelper_int64 ''t.cc'' 7 ''a'' 8 ''b'' 9) (example_state 2) =
      Inr (example_state 2)"
    using failing int64s by blast
  have r3: "repeat 3 (CheckEqualsHelper_int64 ''t.cc'' 7 ''a'' 8 ''b'' 8) (example_state 2) =
      Inr (example_state 2)"
    using passing by blast
  have r4: "repeat 3 (CheckEqualsHelper_intptr ''t.cc'' 7 ''a'' 4 ''b'' 4) (example_state 2) =
      Inr (example_state 2)"
    using passing by blast
  have r5: "repeat 3 (CheckEqualsHelper_ptr ''t.cc'' 7 ''a'' 1 ''b'' 1) (example_state 2) =
      Inr (example_state 2)"
    using passing by blast
  have r6: "repeat 3 (CheckEqualsHelper_str ''t.cc'' 7 ''a'' 1 ''b'' 1) (example_state 2) =
      Inr (example_state 2)"
    using passing same_str by blast
  have r7: "repeat 3 (CheckEqualsHelper_double ''t.cc'' 7 ''a'' 0x3FF0000000000000 ''b''
      0x3FF0000000000000) (example_state 2) = Inr (example_state 2)"
    using passing room2 one_is_one by blast
  have r8: "repeat 3 (CheckNonEqualsHelper_int ''t.cc'' 7 ''a'' 4 ''b'' 5) (example_state 2) =
      Inr (example_state 2)"
    using failing ints by blast
  have r9: "repeat 3 (CheckNonEqualsHelper_ptr ''t.cc'' 7 ''a'' 1 ''b'' 3) (example_state 2) =
      Inr (example_state 2)"
    using failing ptrs by blast
  have r10: "repeat 3 (CheckNonEqualsHelper_str ''t.cc'' 7 ''a'' 1 ''b'' 3) (example_state 2) =
      Inr (example_state 2)"
    using failing other_str by blast
  have r11: "repeat 3 (CheckNonEqualsHelper_double ''t.cc'' 7 ''a'' 0x3FF0000000000000 ''b''
      0x4000000000000000) (example_state 2) = Inr (example_state 2)"
    using failing room2 one_is_not_two by blast
  have r12: "CheckEqualsHelper_double ''t.cc'' 7 ''a'' 0x3FF0000000000000 ''b''
      0x3FF0000000000000 (example_state 1) = Inl bad_alloc"
    using short room1 by blast
  show ?thesis
    by (intro conjI) (fact r1 r2 r3 r4 r5 r6 r7 r8 r9 r10 r11 r12)+
qed

subsection \<open>The unconditional checks\<close>

lemma CHECK_aborts_iff: "aborts (CHECK cfg fl ln src condition s) \<longleftrightarrow> \<not> value_of condition s"
  by (cases "condition s") (simp add: CHECK_def value_of_def)

lemma CHECK_passes:
  "value_of condition s \<Longrightarrow> CHECK cfg fl ln src condition s = Inr (state_after condition s)"
  by (cases "condition s") (simp add: CHECK_def value_of_def state_after_def)

lemma CHECK_fails:
  "\<not> value_of condition s \<Longrightarrow>
    CHECK cfg fl ln src condition s = Inl (V8_Fatal fl ln ''CHECK(%s) failed'' [ArgText src])"
  by (cases "condition s") (simp add: CHECK_def value_of_def)

lemma CHECK_EQ_dispatch:
  "CHECK_EQ cfg helper fl ln es vs operands s =
    helper fl ln es (lhs operands s) vs (rhs operands s) (state_after operands s)"
  by (simp add: CHECK_EQ_def lhs_def rhs_def state_after_def split: prod.split)

lemma CHECK_NE_dispatch:
  "CHECK_NE cfg helper fl ln es vs operands s =
    helper fl ln es (lhs operands s) vs (rhs operands s) (state_after operands s)"
  by (simp add: CHECK_NE_def lhs_def rhs_def state_after_def split: prod.split)

lemma relational_value:
  "value_of (\<lambda>t. case operands t of ((a, b), t') \<Rightarrow> (rel a b, t')) s
    = rel (lhs operands s) (rhs operands s)"
  by (simp add: value_of_def lhs_def rhs_def split: prod.split)

lemma relational_state:
  "state_after (\<lambda>t. case operands t of ((a, b), t') \<Rightarrow> (rel a b, t')) s
    = state_after operands s"
  by (simp add: state_after_def split: prod.split)

lemma ordering_aborts_iff:
  "aborts (CHECK_GT cfg fl ln a_src b_src operands s) \<longleftrightarrow> \<not> lhs operands s > rhs operands s"
  "aborts (CHECK_GE cfg fl ln a_src b_src operands s) \<longleftrightarrow> \<not> lhs operands s \<ge> rhs operands s"
  "aborts (CHECK_LT cfg fl ln a_src b_src operands s) \<longleftrightarrow> \<not> lhs operands s < rhs operands s"
  "aborts (CHECK_LE cfg fl ln a_src b_src operands s) \<longleftrightarrow> \<not> lhs operands s \<le> rhs operands s"
  unfolding CHECK_GT_def CHECK_GE_def CHECK_LT_def CHECK_LE_def CHECK_aborts_iff
  by (simp_all add: relational_value [of "\<lambda>a b. a > b"] relational_value [of "\<lambda>a b. a \<ge> b"]
      relational_value [of "\<lambda>a b. a < b"] relational_value [of "\<lambda>a b. a \<le> b"])

lemma ordering_passes:
  "lhs operands s > rhs operands s \<Longrightarrow>
    CHECK_GT cfg fl ln a_src b_src operands s = Inr (state_after operands s)"
  "lhs operands s \<ge> rhs operands s \<Longrightarrow>
    CHECK_GE cfg fl ln a_src b_src operands s = Inr (state_after operands s)"
  "lhs operands s < rhs operands s \<Longrightarrow>
    CHECK_LT cfg fl ln a_src b_src operands s = Inr (state_after operands s)"
  "lhs operands s \<le> rhs operands s \<Longrightarrow>
    CHECK_LE cfg fl ln a_src b_src operands s = Inr (state_after operands s)"
  unfolding CHECK_GT_def CHECK_GE_def CHECK_LT_def CHECK_LE_def
  by (simp_all add: CHECK_passes relational_state
      relational_value [of "\<lambda>a b. a > b"] relational_value [of "\<lambda>a b. a \<ge> b"]
      relational_value [of "\<lambda>a b. a < b"] relational_value [of "\<lambda>a b. a \<le> b"])

text \<open>
  C4, as claimed: every macro of the unconditional family aborts exactly when its
  predicate is false. It is false of \<^verbatim>\<open>CHECK_EQ\<close> and \<^verbatim>\<open>CHECK_NE\<close> on doubles,
  whose helpers allocate before they compare: on an exhausted free store
  \<^verbatim>\<open>CHECK_EQ(1.0, 2.0)\<close> does not reach the reporter although its predicate is false,
  and \<^verbatim>\<open>CHECK_EQ(1.0, 1.0)\<close> does not return although its predicate is true.
\<close>

theorem check_eq_on_doubles_exhausted:
  "\<not> double_eq 0x3FF0000000000000 0x4000000000000000 \<and>
   CHECK_EQ production CheckEqualsHelper_double ''t.cc'' 7 ''a'' ''b''
     (Pair (0x3FF0000000000000, 0x4000000000000000)) (example_state 0) = Inl bad_alloc \<and>
   \<not> aborts (CHECK_EQ production CheckEqualsHelper_double ''t.cc'' 7 ''a'' ''b''
     (Pair (0x3FF0000000000000, 0x4000000000000000)) (example_state 0)) \<and>
   double_eq 0x3FF0000000000000 0x3FF0000000000000 \<and>
   CHECK_EQ production CheckEqualsHelper_double ''t.cc'' 7 ''a'' ''b''
     (Pair (0x3FF0000000000000, 0x3FF0000000000000)) (example_state 1) = Inl bad_alloc \<and>
   double_eq 0x3FF0000000000000 0x3FF0000000000000 \<and>
   CHECK_NE production CheckNonEqualsHelper_double ''t.cc'' 7 ''a'' ''b''
     (Pair (0x3FF0000000000000, 0x3FF0000000000000)) (example_state 0) = Inl bad_alloc \<and>
   \<not> aborts (CHECK_NE production CheckNonEqualsHelper_double ''t.cc'' 7 ''a'' ''b''
     (Pair (0x3FF0000000000000, 0x3FF0000000000000)) (example_state 0))"
proof -
  have differ_fails:
    "CHECK_EQ production CheckEqualsHelper_double ''t.cc'' 7 ''a'' ''b''
       (Pair (0x3FF0000000000000, 0x4000000000000000)) (example_state 0) = Inl bad_alloc"
    unfolding CHECK_EQ_dispatch
    by (rule double_equals_exhausted) (simp add: state_after_def example_state_def)
  have same_fails:
    "CHECK_EQ production CheckEqualsHelper_double ''t.cc'' 7 ''a'' ''b''
       (Pair (0x3FF0000000000000, 0x3FF0000000000000)) (example_state 1) = Inl bad_alloc"
    unfolding CHECK_EQ_dispatch
    by (rule double_equals_exhausted) (simp add: state_after_def example_state_def)
  have ne_fails:
    "CHECK_NE production CheckNonEqualsHelper_double ''t.cc'' 7 ''a'' ''b''
       (Pair (0x3FF0000000000000, 0x3FF0000000000000)) (example_state 0) = Inl bad_alloc"
    unfolding CHECK_NE_dispatch
    by (rule double_non_equals_exhausted) (simp add: state_after_def example_state_def)
  show ?thesis
    unfolding differ_fails same_fails ne_fails
    using one_is_one one_is_not_two by simp
qed

text \<open>
  C4, amended. The macros \<^verbatim>\<open>CHECK\<close>, \<^verbatim>\<open>CHECK_EQ\<close>, \<^verbatim>\<open>CHECK_NE\<close>,
  \<^verbatim>\<open>CHECK_GT\<close>, \<^verbatim>\<open>CHECK_GE\<close>, \<^verbatim>\<open>CHECK_LT\<close> and \<^verbatim>\<open>CHECK_LE\<close> expand to the
  same code in every build. \<^verbatim>\<open>CHECK\<close> aborts exactly when its condition is false, and
  else returns with the state the condition left. Each ordering check is \<^verbatim>\<open>CHECK\<close>
  applied to the relational expression on its operands, so it aborts exactly when the
  relation is false. \<^verbatim>\<open>CHECK_EQ\<close> and \<^verbatim>\<open>CHECK_NE\<close> call the selected helper on the
  values of their operands; on int, int64, intptr, pointer and string operands they
  abort exactly when the operands are not equal, respectively equal. On double
  operands they do so where the free store has room for the two arrays the helper
  allocates; where it has not, they throw \<^verbatim>\<open>bad_alloc\<close> whatever the operands.
\<close>

theorem unconditional_check_family:
  "CHECK cfg fl ln src condition s = CHECK cfg' fl ln src condition s \<and>
   CHECK_EQ cfg helper fl ln es vs operands s = CHECK_EQ cfg' helper fl ln es vs operands s \<and>
   CHECK_NE cfg helper fl ln es vs operands s = CHECK_NE cfg' helper fl ln es vs operands s \<and>
   CHECK_GT cfg fl ln es vs ordered s = CHECK_GT cfg' fl ln es vs ordered s \<and>
   CHECK_GE cfg fl ln es vs ordered s = CHECK_GE cfg' fl ln es vs ordered s \<and>
   CHECK_LT cfg fl ln es vs ordered s = CHECK_LT cfg' fl ln es vs ordered s \<and>
   CHECK_LE cfg fl ln es vs ordered s = CHECK_LE cfg' fl ln es vs ordered s \<and>
   (aborts (CHECK cfg fl ln src condition s) \<longleftrightarrow> \<not> value_of condition s) \<and>
   (value_of condition s \<longrightarrow>
      CHECK cfg fl ln src condition s = Inr (state_after condition s)) \<and>
   (\<not> value_of condition s \<longrightarrow>
      CHECK cfg fl ln src condition s =
        Inl (V8_Fatal fl ln ''CHECK(%s) failed'' [ArgText src])) \<and>
   CHECK_GT cfg fl ln es vs ordered s =
     CHECK cfg fl ln (''('' @ es @ '') > ('' @ vs @ '')'')
       (\<lambda>t. (lhs ordered t > rhs ordered t, state_after ordered t)) s \<and>
   CHECK_GE cfg fl ln es vs ordered s =
     CHECK cfg fl ln (''('' @ es @ '') >= ('' @ vs @ '')'')
       (\<lambda>t. (lhs ordered t \<ge> rhs ordered t, state_after ordered t)) s \<and>
   CHECK_LT cfg fl ln es vs ordered s =
     CHECK cfg fl ln (''('' @ es @ '') < ('' @ vs @ '')'')
       (\<lambda>t. (lhs ordered t < rhs ordered t, state_after ordered t)) s \<and>
   CHECK_LE cfg fl ln es vs ordered s =
     CHECK cfg fl ln (''('' @ es @ '') <= ('' @ vs @ '')'')
       (\<lambda>t. (lhs ordered t \<le> rhs ordered t, state_after ordered t)) s \<and>
   (aborts (CHECK_GT cfg fl ln es vs ordered s) \<longleftrightarrow> \<not> lhs ordered s > rhs ordered s) \<and>
   (aborts (CHECK_GE cfg fl ln es vs ordered s) \<longleftrightarrow> \<not> lhs ordered s \<ge> rhs ordered s) \<and>
   (aborts (CHECK_LT cfg fl ln es vs ordered s) \<longleftrightarrow> \<not> lhs ordered s < rhs ordered s) \<and>
   (aborts (CHECK_LE cfg fl ln es vs ordered s) \<longleftrightarrow> \<not> lhs ordered s \<le> rhs ordered s) \<and>
   (lhs ordered s > rhs ordered s \<longrightarrow>
      CHECK_GT cfg fl ln es vs ordered s = Inr (state_after ordered s)) \<and>
   CHECK_EQ cfg helper fl ln es vs operands s =
     helper fl ln es (lhs operands s) vs (rhs operands s) (state_after operands s) \<and>
   CHECK_NE cfg helper fl ln es vs operands s =
     helper fl ln es (lhs operands s) vs (rhs operands s) (state_after operands s) \<and>
   (aborts (CHECK_EQ cfg CheckEqualsHelper_int fl ln es vs ints s) \<longleftrightarrow>
      lhs ints s \<noteq> rhs ints s) \<and>
   (aborts (CHECK_NE cfg CheckNonEqualsHelper_int fl ln es vs ints s) \<longleftrightarrow>
      \<not> lhs ints s \<noteq> rhs ints s) \<and>
   (aborts (CHECK_EQ cfg CheckEqualsHelper_int64 fl ln es vs int64s s) \<longleftrightarrow>
      lhs int64s s \<noteq> rhs int64s s) \<and>
   (aborts (CHECK_NE cfg CheckNonEqualsHelper_int64 fl ln es vs int64s s) \<longleftrightarrow>
      \<not> lhs int64s s \<noteq> rhs int64s s) \<and>
   (aborts (CHECK_EQ cfg CheckEqualsHelper_ptr fl ln es vs ptrs s) \<longleftrightarrow>
      lhs ptrs s \<noteq> rhs ptrs s) \<and>
   (aborts (CHECK_NE cfg CheckNonEqualsHelper_ptr fl ln es vs ptrs s) \<longleftrightarrow>
      \<not> lhs ptrs s \<noteq> rhs ptrs s) \<and>
   (aborts (CHECK_EQ cfg CheckEqualsHelper_intptr fl ln es vs intptrs s) \<longleftrightarrow>
      lhs intptrs s \<noteq> rhs intptrs s) \<and>
   (aborts (CHECK_EQ cfg CheckEqualsHelper_str fl ln es vs strs t) \<longleftrightarrow>
      \<not> string_equals (mem (state_after strs t)) (lhs strs t) (rhs strs t)) \<and>
   (aborts (CHECK_NE cfg CheckNonEqualsHelper_str fl ln es vs strs t) \<longleftrightarrow>
      string_equals (mem (state_after strs t)) (lhs strs t) (rhs strs t)) \<and>
   (2 \<le> room (state_after doubles t) \<longrightarrow>
      (aborts (CHECK_EQ cfg CheckEqualsHelper_double fl ln es vs doubles t) \<longleftrightarrow>
         \<not> double_eq (lhs doubles t) (rhs doubles t)) \<and>
      (aborts (CHECK_NE cfg CheckNonEqualsHelper_double fl ln es vs doubles t) \<longleftrightarrow>
         double_eq (lhs doubles t) (rhs doubles t))) \<and>
   (room (state_after doubles t) < 2 \<longrightarrow>
      CHECK_EQ cfg CheckEqualsHelper_double fl ln es vs doubles t = Inl bad_alloc \<and>
      CHECK_NE cfg CheckNonEqualsHelper_double fl ln es vs doubles t = Inl bad_alloc)"
proof -
  have build:
    "CHECK cfg fl ln src condition s = CHECK cfg' fl ln src condition s"
    "CHECK_EQ cfg helper fl ln es vs operands s = CHECK_EQ cfg' helper fl ln es vs operands s"
    "CHECK_NE cfg helper fl ln es vs operands s = CHECK_NE cfg' helper fl ln es vs operands s"
    "CHECK_GT cfg fl ln es vs ordered s = CHECK_GT cfg' fl ln es vs ordered s"
    "CHECK_GE cfg fl ln es vs ordered s = CHECK_GE cfg' fl ln es vs ordered s"
    "CHECK_LT cfg fl ln es vs ordered s = CHECK_LT cfg' fl ln es vs ordered s"
    "CHECK_LE cfg fl ln es vs ordered s = CHECK_LE cfg' fl ln es vs ordered s"
    by (simp_all add: CHECK_def CHECK_EQ_def CHECK_NE_def CHECK_GT_def CHECK_GE_def
        CHECK_LT_def CHECK_LE_def)
  have check:
    "aborts (CHECK cfg fl ln src condition s) \<longleftrightarrow> \<not> value_of condition s"
    "value_of condition s \<longrightarrow> CHECK cfg fl ln src condition s = Inr (state_after condition s)"
    "\<not> value_of condition s \<longrightarrow>
      CHECK cfg fl ln src condition s = Inl (V8_Fatal fl ln ''CHECK(%s) failed'' [ArgText src])"
    by (simp_all add: CHECK_aborts_iff CHECK_passes CHECK_fails)
  have relational:
    "(\<lambda>t. case ordered t of ((a, b), t') \<Rightarrow> (rel a b, t')) =
      (\<lambda>t. (rel (lhs ordered t) (rhs ordered t), state_after ordered t))" for rel
    by (rule ext) (simp add: lhs_def rhs_def state_after_def split: prod.split)
  have reduce:
    "CHECK_GT cfg fl ln es vs ordered s =
      CHECK cfg fl ln (''('' @ es @ '') > ('' @ vs @ '')'')
        (\<lambda>t. (lhs ordered t > rhs ordered t, state_after ordered t)) s"
    "CHECK_GE cfg fl ln es vs ordered s =
      CHECK cfg fl ln (''('' @ es @ '') >= ('' @ vs @ '')'')
        (\<lambda>t. (lhs ordered t \<ge> rhs ordered t, state_after ordered t)) s"
    "CHECK_LT cfg fl ln es vs ordered s =
      CHECK cfg fl ln (''('' @ es @ '') < ('' @ vs @ '')'')
        (\<lambda>t. (lhs ordered t < rhs ordered t, state_after ordered t)) s"
    "CHECK_LE cfg fl ln es vs ordered s =
      CHECK cfg fl ln (''('' @ es @ '') <= ('' @ vs @ '')'')
        (\<lambda>t. (lhs ordered t \<le> rhs ordered t, state_after ordered t)) s"
    unfolding CHECK_GT_def CHECK_GE_def CHECK_LT_def CHECK_LE_def
    by (simp_all only: relational [of "\<lambda>a b. a > b"] relational [of "\<lambda>a b. a \<ge> b"]
        relational [of "\<lambda>a b. a < b"] relational [of "\<lambda>a b. a \<le> b"])
  have ordering:
    "aborts (CHECK_GT cfg fl ln es vs ordered s) \<longleftrightarrow> \<not> lhs ordered s > rhs ordered s"
    "aborts (CHECK_GE cfg fl ln es vs ordered s) \<longleftrightarrow> \<not> lhs ordered s \<ge> rhs ordered s"
    "aborts (CHECK_LT cfg fl ln es vs ordered s) \<longleftrightarrow> \<not> lhs ordered s < rhs ordered s"
    "aborts (CHECK_LE cfg fl ln es vs ordered s) \<longleftrightarrow> \<not> lhs ordered s \<le> rhs ordered s"
    "lhs ordered s > rhs ordered s \<longrightarrow>
      CHECK_GT cfg fl ln es vs ordered s = Inr (state_after ordered s)"
    by (simp_all add: ordering_aborts_iff ordering_passes)
  have dispatch:
    "CHECK_EQ cfg helper fl ln es vs operands s =
      helper fl ln es (lhs operands s) vs (rhs operands s) (state_after operands s)"
    "CHECK_NE cfg helper fl ln es vs operands s =
      helper fl ln es (lhs operands s) vs (rhs operands s) (state_after operands s)"
    by (rule CHECK_EQ_dispatch, rule CHECK_NE_dispatch)
  have kinds:
    "aborts (CHECK_EQ cfg CheckEqualsHelper_int fl ln es vs ints s) \<longleftrightarrow> lhs ints s \<noteq> rhs ints s"
    "aborts (CHECK_NE cfg CheckNonEqualsHelper_int fl ln es vs ints s) \<longleftrightarrow>
      \<not> lhs ints s \<noteq> rhs ints s"
    "aborts (CHECK_EQ cfg CheckEqualsHelper_int64 fl ln es vs int64s s) \<longleftrightarrow>
      lhs int64s s \<noteq> rhs int64s s"
    "aborts (CHECK_NE cfg CheckNonEqualsHelper_int64 fl ln es vs int64s s) \<longleftrightarrow>
      \<not> lhs int64s s \<noteq> rhs int64s s"
    "aborts (CHECK_EQ cfg CheckEqualsHelper_ptr fl ln es vs ptrs s) \<longleftrightarrow> lhs ptrs s \<noteq> rhs ptrs s"
    "aborts (CHECK_NE cfg CheckNonEqualsHelper_ptr fl ln es vs ptrs s) \<longleftrightarrow>
      \<not> lhs ptrs s \<noteq> rhs ptrs s"
    "aborts (CHECK_EQ cfg CheckEqualsHelper_intptr fl ln es vs intptrs s) \<longleftrightarrow>
      lhs intptrs s \<noteq> rhs intptrs s"
    by (simp_all add: CHECK_EQ_dispatch CHECK_NE_dispatch CheckEqualsHelper_int_def
        CheckNonEqualsHelper_int_def CheckEqualsHelper_int64_def CheckNonEqualsHelper_int64_def
        CheckEqualsHelper_ptr_def CheckNonEqualsHelper_ptr_def CheckEqualsHelper_intptr_def)
  have strings:
    "aborts (CHECK_EQ cfg CheckEqualsHelper_str fl ln es vs strs t) \<longleftrightarrow>
      \<not> string_equals (mem (state_after strs t)) (lhs strs t) (rhs strs t)"
    "aborts (CHECK_NE cfg CheckNonEqualsHelper_str fl ln es vs strs t) \<longleftrightarrow>
      string_equals (mem (state_after strs t)) (lhs strs t) (rhs strs t)"
    by (simp_all add: CHECK_EQ_dispatch CHECK_NE_dispatch str_equals_aborts_iff
        str_non_equals_aborts_iff)
  have floats:
    "2 \<le> room (state_after doubles t) \<longrightarrow>
      (aborts (CHECK_EQ cfg CheckEqualsHelper_double fl ln es vs doubles t) \<longleftrightarrow>
         \<not> double_eq (lhs doubles t) (rhs doubles t)) \<and>
      (aborts (CHECK_NE cfg CheckNonEqualsHelper_double fl ln es vs doubles t) \<longleftrightarrow>
         double_eq (lhs doubles t) (rhs doubles t))"
  proof (intro impI conjI)
    assume r: "2 \<le> room (state_after doubles t)"
    show "aborts (CHECK_EQ cfg CheckEqualsHelper_double fl ln es vs doubles t) \<longleftrightarrow>
         \<not> double_eq (lhs doubles t) (rhs doubles t)"
      unfolding CHECK_EQ_dispatch
      by (cases "double_eq (lhs doubles t) (rhs doubles t)")
        (simp_all add: double_equals_passes double_equals_fails r)
    show "aborts (CHECK_NE cfg CheckNonEqualsHelper_double fl ln es vs doubles t) \<longleftrightarrow>
         double_eq (lhs doubles t) (rhs doubles t)"
      unfolding CHECK_NE_dispatch
      by (cases "double_eq (lhs doubles t) (rhs doubles t)")
        (simp_all add: double_non_equals_passes double_non_equals_fails r)
  qed
  have exhausted:
    "room (state_after doubles t) < 2 \<longrightarrow>
      CHECK_EQ cfg CheckEqualsHelper_double fl ln es vs doubles t = Inl bad_alloc \<and>
      CHECK_NE cfg CheckNonEqualsHelper_double fl ln es vs doubles t = Inl bad_alloc"
    by (simp add: CHECK_EQ_dispatch CHECK_NE_dispatch double_equals_exhausted
        double_non_equals_exhausted)
  show ?thesis
    by (intro conjI)
      (fact build check reduce ordering dispatch kinds strings floats exhausted)+
qed

text \<open>\<^verbatim>\<open>CHECK_GT(5, 3)\<close> returns and \<^verbatim>\<open>CHECK_GT(3, 5)\<close> aborts, in either build.\<close>

theorem unconditional_check_family_witness:
  "CHECK_GT production ''t.cc'' 7 ''5'' ''3'' (Pair (5::int, 3)) (4::nat) = Inr 4 \<and>
   \<not> aborts (CHECK_GT development ''t.cc'' 7 ''5'' ''3'' (Pair (5::int, 3)) (4::nat)) \<and>
   aborts (CHECK_GT production ''t.cc'' 7 ''3'' ''5'' (Pair (3::int, 5)) (4::nat)) \<and>
   aborts (CHECK_GT development ''t.cc'' 7 ''3'' ''5'' (Pair (3::int, 5)) (4::nat)) \<and>
   CHECK production ''t.cc'' 7 ''c'' count_up 4 =
     Inl (V8_Fatal ''t.cc'' 7 ''CHECK(%s) failed'' [ArgText ''c'']) \<and>
   CHECK production ''t.cc'' 7 ''c'' (Pair True) (4::nat) = Inr 4 \<and>
   aborts (CHECK_EQ production CheckEqualsHelper_double ''t.cc'' 7 ''a'' ''b''
     (Pair (0x3FF0000000000000, 0x4000000000000000)) (example_state 2)) \<and>
   CHECK_EQ production CheckEqualsHelper_double ''t.cc'' 7 ''a'' ''b''
     (Pair (0x3FF0000000000000, 0x4000000000000000)) (example_state 1) = Inl bad_alloc"
proof -
  let ?s = "4::nat"
  let ?more = "Pair (5::int, 3::int) :: (nat, int \<times> int) expr"
  let ?less = "Pair (3::int, 5::int) :: (nat, int \<times> int) expr"
  let ?true = "Pair True :: (nat, bool) expr"
  let ?doubles = "Pair (0x3FF0000000000000::64 word, 0x4000000000000000::64 word)
    :: (state, 64 word \<times> 64 word) expr"
  have more: "lhs ?more ?s > rhs ?more ?s" and less: "\<not> lhs ?less ?s > rhs ?less ?s"
    and same_state: "state_after ?more ?s = 4"
    by (simp_all add: lhs_def rhs_def state_after_def)
  have false: "\<not> value_of count_up 4" and true: "value_of ?true ?s"
    and after_true: "state_after ?true ?s = 4"
    by (simp_all add: value_of_def state_after_def count_up_def)
  have room2: "2 \<le> room (state_after ?doubles (example_state 2))"
    by (simp add: state_after_def example_state_def)
  have differ: "\<not> double_eq (lhs ?doubles (example_state 2)) (rhs ?doubles (example_state 2))"
    using one_is_not_two by (simp add: lhs_def rhs_def)
  have room1: "room (state_after ?doubles (example_state 1)) < 2"
    by (simp add: state_after_def example_state_def)
  note common = unconditional_check_family [where fl = "''t.cc''" and ln = 7 and s = ?s
      and cfg' = development and src = "''c''" and helper = CheckEqualsHelper_int
      and operands = "Pair (4, 5)" and ints = "Pair (4, 5)" and int64s = "Pair (8, 9)"
      and ptrs = "Pair (1, 2)" and intptrs = "Pair (4, 5)" and strs = "Pair (1, 3)"
      and doubles = ?doubles]
  note base = common [where t = "example_state 2"]
  note short = common [where t = "example_state 1" and cfg = production and es = "''a''"
      and vs = "''b''" and ordered = ?less and condition = ?true]
  note gt_prod = base [where cfg = production and es = "''5''" and vs = "''3''"
      and ordered = ?more and condition = count_up]
  note gt_dev = base [where cfg = development and es = "''5''" and vs = "''3''"
      and ordered = ?more and condition = count_up]
  note lt_prod = base [where cfg = production and es = "''3''" and vs = "''5''"
      and ordered = ?less and condition = count_up]
  note lt_dev = base [where cfg = development and es = "''3''" and vs = "''5''"
      and ordered = ?less and condition = count_up]
  note passes = base [where cfg = production and es = "''a''" and vs = "''b''"
      and ordered = ?less and condition = ?true]
  have "CHECK_GT production ''t.cc'' 7 ''5'' ''3'' ?more ?s = Inr (state_after ?more ?s)"
    using gt_prod more by blast
  then have r1: "CHECK_GT production ''t.cc'' 7 ''5'' ''3'' ?more ?s = Inr 4"
    by (simp only: same_state)
  have r2: "\<not> aborts (CHECK_GT development ''t.cc'' 7 ''5'' ''3'' ?more ?s)"
    using gt_dev more by blast
  have r3: "aborts (CHECK_GT production ''t.cc'' 7 ''3'' ''5'' ?less ?s)"
    using lt_prod less by blast
  have r4: "aborts (CHECK_GT development ''t.cc'' 7 ''3'' ''5'' ?less ?s)"
    using lt_dev less by blast
  have r5: "CHECK production ''t.cc'' 7 ''c'' count_up 4 =
      Inl (V8_Fatal ''t.cc'' 7 ''CHECK(%s) failed'' [ArgText ''c''])"
    using gt_prod false by blast
  have "CHECK production ''t.cc'' 7 ''c'' ?true ?s = Inr (state_after ?true ?s)"
    using passes true by blast
  then have r6: "CHECK production ''t.cc'' 7 ''c'' ?true ?s = Inr 4"
    by (simp only: after_true)
  have r7: "aborts (CHECK_EQ production CheckEqualsHelper_double ''t.cc'' 7 ''a'' ''b''
      ?doubles (example_state 2))"
    using passes room2 differ by blast
  have r8: "CHECK_EQ production CheckEqualsHelper_double ''t.cc'' 7 ''a'' ''b''
      ?doubles (example_state 1) = Inl bad_alloc"
    using short room1 by blast
  show ?thesis
    by (intro conjI) (fact r1 r2 r3 r4 r5 r6 r7 r8)+
qed

subsection \<open>The development-only checks\<close>

text \<open>
  C5. In a development build \<^verbatim>\<open>ASSERT\<close>, \<^verbatim>\<open>ASSERT_EQ\<close>, \<^verbatim>\<open>ASSERT_NE\<close>,
  \<^verbatim>\<open>ASSERT_GE\<close>, \<^verbatim>\<open>ASSERT_LT\<close>, \<^verbatim>\<open>ASSERT_LE\<close> and \<^verbatim>\<open>ASSERT_RESULT\<close> are the
  corresponding unconditional checks. In a production build the first six do nothing:
  they return in the state they were reached in, their arguments not evaluated.
  \<^verbatim>\<open>ASSERT_RESULT(expr)\<close> in a production build evaluates \<^verbatim>\<open>expr\<close>, so that its
  side effects occur, and checks nothing.
\<close>

theorem assert_family_by_build_mode:
  "(DEBUG cfg \<longrightarrow>
      ASSERT cfg fl ln src condition s = CHECK cfg fl ln src condition s \<and>
      ASSERT_EQ cfg eq_helper fl ln es vs operands s =
        CHECK_EQ cfg eq_helper fl ln es vs operands s \<and>
      ASSERT_NE cfg ne_helper fl ln es vs operands s =
        CHECK_NE cfg ne_helper fl ln es vs operands s \<and>
      ASSERT_GE cfg fl ln es vs ordered s = CHECK_GE cfg fl ln es vs ordered s \<and>
      ASSERT_LT cfg fl ln es vs ordered s = CHECK_LT cfg fl ln es vs ordered s \<and>
      ASSERT_LE cfg fl ln es vs ordered s = CHECK_LE cfg fl ln es vs ordered s \<and>
      ASSERT_RESULT cfg fl ln src condition s = CHECK cfg fl ln src condition s) \<and>
   (\<not> DEBUG cfg \<longrightarrow>
      ASSERT cfg fl ln src condition s = Inr s \<and>
      ASSERT_EQ cfg eq_helper fl ln es vs operands s = Inr s \<and>
      ASSERT_NE cfg ne_helper fl ln es vs operands s = Inr s \<and>
      ASSERT_GE cfg fl ln es vs ordered s = Inr s \<and>
      ASSERT_LT cfg fl ln es vs ordered s = Inr s \<and>
      ASSERT_LE cfg fl ln es vs ordered s = Inr s \<and>
      ASSERT_RESULT cfg fl ln src condition s = Inr (state_after condition s)) \<and>
   (aborts (ASSERT cfg fl ln src condition s) \<longleftrightarrow> DEBUG cfg \<and> \<not> value_of condition s) \<and>
   (aborts (ASSERT_RESULT cfg fl ln src condition s) \<longleftrightarrow> DEBUG cfg \<and> \<not> value_of condition s)"
proof -
  have dev: "DEBUG cfg \<longrightarrow>
      ASSERT cfg fl ln src condition s = CHECK cfg fl ln src condition s \<and>
      ASSERT_EQ cfg eq_helper fl ln es vs operands s =
        CHECK_EQ cfg eq_helper fl ln es vs operands s \<and>
      ASSERT_NE cfg ne_helper fl ln es vs operands s =
        CHECK_NE cfg ne_helper fl ln es vs operands s \<and>
      ASSERT_GE cfg fl ln es vs ordered s = CHECK_GE cfg fl ln es vs ordered s \<and>
      ASSERT_LT cfg fl ln es vs ordered s = CHECK_LT cfg fl ln es vs ordered s \<and>
      ASSERT_LE cfg fl ln es vs ordered s = CHECK_LE cfg fl ln es vs ordered s \<and>
      ASSERT_RESULT cfg fl ln src condition s = CHECK cfg fl ln src condition s"
    by (simp add: ASSERT_def ASSERT_EQ_def ASSERT_NE_def ASSERT_GE_def ASSERT_LT_def
        ASSERT_LE_def ASSERT_RESULT_def)
  have prod: "\<not> DEBUG cfg \<longrightarrow>
      ASSERT cfg fl ln src condition s = Inr s \<and>
      ASSERT_EQ cfg eq_helper fl ln es vs operands s = Inr s \<and>
      ASSERT_NE cfg ne_helper fl ln es vs operands s = Inr s \<and>
      ASSERT_GE cfg fl ln es vs ordered s = Inr s \<and>
      ASSERT_LT cfg fl ln es vs ordered s = Inr s \<and>
      ASSERT_LE cfg fl ln es vs ordered s = Inr s \<and>
      ASSERT_RESULT cfg fl ln src condition s = Inr (state_after condition s)"
    by (cases "condition s")
      (simp add: ASSERT_def ASSERT_EQ_def ASSERT_NE_def ASSERT_GE_def ASSERT_LT_def
        ASSERT_LE_def ASSERT_RESULT_def state_after_def)
  have a: "aborts (ASSERT cfg fl ln src condition s) \<longleftrightarrow> DEBUG cfg \<and> \<not> value_of condition s"
    by (simp add: ASSERT_def CHECK_aborts_iff)
  have r: "aborts (ASSERT_RESULT cfg fl ln src condition s) \<longleftrightarrow>
      DEBUG cfg \<and> \<not> value_of condition s"
    by (cases "condition s") (simp add: ASSERT_RESULT_def CHECK_aborts_iff)
  show ?thesis
    by (intro conjI) (fact dev prod a r)+
qed

theorem assert_family_by_build_mode_witness:
  "ASSERT development ''t.cc'' 7 ''c'' count_up 4 = CHECK development ''t.cc'' 7 ''c'' count_up 4 \<and>
   aborts (ASSERT development ''t.cc'' 7 ''c'' count_up 4) \<and>
   aborts (ASSERT_RESULT development ''t.cc'' 7 ''c'' count_up 4) \<and>
   ASSERT_EQ development CheckEqualsHelper_int ''t.cc'' 7 ''a'' ''b'' (Pair (4, 5)) (4::nat) =
     CHECK_EQ development CheckEqualsHelper_int ''t.cc'' 7 ''a'' ''b'' (Pair (4, 5)) 4 \<and>
   ASSERT production ''t.cc'' 7 ''c'' count_up 4 = Inr 4 \<and>
   ASSERT_EQ production CheckEqualsHelper_int ''t.cc'' 7 ''a'' ''b'' (Pair (4, 5)) (4::nat) =
     Inr 4 \<and>
   ASSERT_LT production ''t.cc'' 7 ''a'' ''b'' (Pair (5::int, 3)) (4::nat) = Inr 4 \<and>
   ASSERT_RESULT production ''t.cc'' 7 ''c'' count_up 4 = Inr 5"
proof -
  have dev: "DEBUG development" and prod: "\<not> DEBUG production"
    by (simp_all add: development_def production_def)
  have false: "\<not> value_of count_up 4" and after: "state_after count_up 4 = 5"
    by (simp_all add: value_of_def state_after_def count_up_def)
  note in_dev = assert_family_by_build_mode [where cfg = development and fl = "''t.cc''"
      and ln = 7 and src = "''c''" and condition = count_up and s = "4::nat"
      and es = "''a''" and vs = "''b''" and eq_helper = CheckEqualsHelper_int
      and operands = "Pair (4, 5)"]
  note in_prod = assert_family_by_build_mode [where cfg = production and fl = "''t.cc''"
      and ln = 7 and src = "''c''" and condition = count_up and s = "4::nat"
      and es = "''a''" and vs = "''b''" and eq_helper = CheckEqualsHelper_int
      and operands = "Pair (4, 5)" and ordered = "Pair (5::int, 3)"]
  have r1: "ASSERT development ''t.cc'' 7 ''c'' count_up 4 =
      CHECK development ''t.cc'' 7 ''c'' count_up 4"
    using in_dev dev by blast
  have r2: "aborts (ASSERT development ''t.cc'' 7 ''c'' count_up 4)"
    using in_dev dev false by blast
  have r3: "aborts (ASSERT_RESULT development ''t.cc'' 7 ''c'' count_up 4)"
    using in_dev dev false by blast
  have r4: "ASSERT_EQ development CheckEqualsHelper_int ''t.cc'' 7 ''a'' ''b'' (Pair (4, 5))
      (4::nat) = CHECK_EQ development CheckEqualsHelper_int ''t.cc'' 7 ''a'' ''b'' (Pair (4, 5)) 4"
    using in_dev dev by blast
  have r5: "ASSERT production ''t.cc'' 7 ''c'' count_up 4 = Inr 4"
    using in_prod prod by blast
  have r6: "ASSERT_EQ production CheckEqualsHelper_int ''t.cc'' 7 ''a'' ''b'' (Pair (4, 5))
      (4::nat) = Inr 4"
    using in_prod prod by blast
  have r7: "ASSERT_LT production ''t.cc'' 7 ''a'' ''b'' (Pair (5::int, 3)) (4::nat) = Inr 4"
    using in_prod prod by blast
  have "ASSERT_RESULT production ''t.cc'' 7 ''c'' count_up 4 = Inr (state_after count_up 4)"
    using in_prod prod by blast
  then have r8: "ASSERT_RESULT production ''t.cc'' 7 ''c'' count_up 4 = Inr 5"
    by (simp only: after)
  show ?thesis
    by (intro conjI) (fact r1 r2 r3 r4 r5 r6 r7 r8)+
qed

subsection \<open>Fatal errors\<close>

text \<open>
  C6. \<^verbatim>\<open>UNREACHABLE()\<close> in a development build calls the reporter with the call
  site's file and line and the message \<^verbatim>\<open>unreachable code\<close>; in a production build it
  does nothing and control falls through.
\<close>

theorem unreachable_by_build_mode:
  "(DEBUG cfg \<longrightarrow>
      UNREACHABLE cfg fl ln s = Inl (V8_Fatal fl ln ''unreachable code'' [])) \<and>
   (\<not> DEBUG cfg \<longrightarrow> UNREACHABLE cfg fl ln s = Inr s)"
  by (simp add: UNREACHABLE_def)

theorem unreachable_by_build_mode_witness:
  "UNREACHABLE development ''t.cc'' 7 (example_state 0) =
     Inl (V8_Fatal ''t.cc'' 7 ''unreachable code'' []) \<and>
   UNREACHABLE production ''t.cc'' 7 (example_state 0) = Inr (example_state 0)"
proof -
  have dev: "DEBUG development" and prod: "\<not> DEBUG production"
    by (simp_all add: development_def production_def)
  show ?thesis
    using unreachable_by_build_mode [where cfg = development and fl = "''t.cc''" and ln = 7
        and s = "example_state 0"]
      unreachable_by_build_mode [where cfg = production and fl = "''t.cc''" and ln = 7
        and s = "example_state 0"] dev prod
    by blast
qed

text \<open>
  C7. \<^verbatim>\<open>FATAL(msg)\<close> and \<^verbatim>\<open>UNIMPLEMENTED()\<close> call the reporter in both builds: with
  the call site's file and line in a development build, with the empty file name and
  the line 0 in a production build.
\<close>

theorem fatal_and_unimplemented_location:
  "(DEBUG cfg \<longrightarrow>
      FATAL cfg fl ln msg s = Inl (V8_Fatal fl ln ''%s'' [ArgText msg]) \<and>
      UNIMPLEMENTED cfg fl ln s = Inl (V8_Fatal fl ln ''unimplemented code'' [])) \<and>
   (\<not> DEBUG cfg \<longrightarrow>
      FATAL cfg fl ln msg s = Inl (V8_Fatal '''' 0 ''%s'' [ArgText msg]) \<and>
      UNIMPLEMENTED cfg fl ln s = Inl (V8_Fatal '''' 0 ''unimplemented code'' [])) \<and>
   aborts (FATAL cfg fl ln msg s) \<and>
   aborts (UNIMPLEMENTED cfg fl ln s)"
  by (simp add: FATAL_def UNIMPLEMENTED_def)

theorem fatal_and_unimplemented_location_witness:
  "FATAL development ''t.cc'' 7 ''boom'' (example_state 0) =
     Inl (V8_Fatal ''t.cc'' 7 ''%s'' [ArgText ''boom'']) \<and>
   UNIMPLEMENTED development ''t.cc'' 7 (example_state 0) =
     Inl (V8_Fatal ''t.cc'' 7 ''unimplemented code'' []) \<and>
   FATAL production ''t.cc'' 7 ''boom'' (example_state 0) =
     Inl (V8_Fatal '''' 0 ''%s'' [ArgText ''boom'']) \<and>
   UNIMPLEMENTED production ''t.cc'' 7 (example_state 0) =
     Inl (V8_Fatal '''' 0 ''unimplemented code'' [])"
proof -
  have dev: "DEBUG development" and prod: "\<not> DEBUG production"
    by (simp_all add: development_def production_def)
  show ?thesis
    using fatal_and_unimplemented_location [where cfg = development and fl = "''t.cc''"
        and ln = 7 and msg = "''boom''" and s = "example_state 0"]
      fatal_and_unimplemented_location [where cfg = production and fl = "''t.cc''"
        and ln = 7 and msg = "''boom''" and s = "example_state 0"] dev prod
    by blast
qed

subsection \<open>The checks of the PPC port\<close>

text \<open>
  C9. \<^verbatim>\<open>PPCPORT_UNSAFE_IMPLEMENTATION()\<close> does nothing in every build, whether
  \<^verbatim>\<open>ENABLE_EXTRA_PPCCHECKS\<close> is defined or not. \<^verbatim>\<open>PPCPORT_CHECK\<close> and
  \<^verbatim>\<open>PPCPORT_UNIMPLEMENTED\<close> are \<^verbatim>\<open>CHECK\<close> and \<^verbatim>\<open>UNIMPLEMENTED\<close> when the flag
  is defined and do nothing when it is not.
\<close>

theorem ppcport_macros:
  "PPCPORT_UNSAFE_IMPLEMENTATION cfg fl ln s = Inr s \<and>
   (ENABLE_EXTRA_PPCCHECKS cfg \<longrightarrow>
      PPCPORT_CHECK cfg fl ln src condition s = CHECK cfg fl ln src condition s \<and>
      PPCPORT_UNIMPLEMENTED cfg fl ln s = UNIMPLEMENTED cfg fl ln s \<and>
      aborts (PPCPORT_UNIMPLEMENTED cfg fl ln s) \<and>
      (aborts (PPCPORT_CHECK cfg fl ln src condition s) \<longleftrightarrow> \<not> value_of condition s)) \<and>
   (\<not> ENABLE_EXTRA_PPCCHECKS cfg \<longrightarrow>
      PPCPORT_CHECK cfg fl ln src condition s = Inr s \<and>
      PPCPORT_UNIMPLEMENTED cfg fl ln s = Inr s)"
  by (simp add: PPCPORT_UNSAFE_IMPLEMENTATION_def PPCPORT_CHECK_def PPCPORT_UNIMPLEMENTED_def
      UNIMPLEMENTED_def CHECK_def value_of_def split: prod.split)

theorem ppcport_macros_witness:
  "PPCPORT_UNSAFE_IMPLEMENTATION ppc_checks ''t.cc'' 7 (4::nat) = Inr 4 \<and>
   PPCPORT_UNSAFE_IMPLEMENTATION production ''t.cc'' 7 (4::nat) = Inr 4 \<and>
   aborts (PPCPORT_CHECK ppc_checks ''t.cc'' 7 ''c'' count_up 4) \<and>
   aborts (PPCPORT_UNIMPLEMENTED ppc_checks ''t.cc'' 7 (4::nat)) \<and>
   PPCPORT_CHECK production ''t.cc'' 7 ''c'' count_up 4 = Inr 4 \<and>
   PPCPORT_UNIMPLEMENTED production ''t.cc'' 7 (4::nat) = Inr 4"
proof -
  have on: "ENABLE_EXTRA_PPCCHECKS ppc_checks" and off: "\<not> ENABLE_EXTRA_PPCCHECKS production"
    by (simp_all add: ppc_checks_def production_def)
  have false: "\<not> value_of count_up 4"
    by (simp add: value_of_def count_up_def)
  show ?thesis
    using on off false
      ppcport_macros [where cfg = ppc_checks and fl = "''t.cc''" and ln = 7 and src = "''c''"
        and condition = count_up and s = 4]
      ppcport_macros [where cfg = production and fl = "''t.cc''" and ln = 7 and src = "''c''"
        and condition = count_up and s = 4]
    by blast
qed

end
